theory Spec2Isabelle
  imports Complex_Main "HOL-Library.Log_Nat" "HOL-Library.Sublist"
begin

section \<open>JavaScript numbers\<close>

text \<open>
  The classifier adds the literals \<^verbatim>\<open>0.3\<close>, \<^verbatim>\<open>0.1\<close> and the per-type boosts with
  JavaScript's \<^verbatim>\<open>+=\<close>, that is in IEEE-754 binary64 with round-to-nearest, ties to even.
  A finite double is modelled by the real number it denotes; \<open>rnd\<close> rounds a real to the nearest
  number with a 53-bit significand. The exponent range is not bounded: every value the classifier
  computes is zero or has a magnitude between \<open>1 / 2 ^ 60\<close> and \<open>2 ^ 5\<close>, far inside the
  normal range of binary64, where the two roundings agree. Comparisons and \<^verbatim>\<open>Math.min\<close> are exact on doubles.
\<close>

type_synonym num = real

definition pow2 :: "int \<Rightarrow> real" where
  "pow2 e = (if 0 \<le> e then 2 ^ nat e else 1 / 2 ^ nat (- e))"

definition ilog2_small :: "real \<Rightarrow> int \<Rightarrow> int" where
  "ilog2_small x e0 = (if pow2 (e0 + 1) \<le> x then e0 + 1 else e0)"

text \<open>For \<open>0 < x\<close>, \<open>ilog2 x\<close> is the exponent \<open>e\<close> with \<open>pow2 e \<le> x < pow2 (e + 1)\<close>.\<close>

definition ilog2 :: "real \<Rightarrow> int" where
  "ilog2 x = (if 1 \<le> x then bitlen \<lfloor>x\<rfloor> - 1 else ilog2_small x (- bitlen \<lfloor>1 / x\<rfloor>))"

definition round_from :: "real \<Rightarrow> int \<Rightarrow> int" where
  "round_from q f = (if q - of_int f < 1 / 2 then f else if 1 / 2 < q - of_int f then f + 1
     else if even f then f else f + 1)"

definition round_even :: "real \<Rightarrow> int" where
  "round_even q = round_from q \<lfloor>q\<rfloor>"

definition round_to :: "real \<Rightarrow> real \<Rightarrow> real" where
  "round_to u a = of_int (round_even (a / u)) * u"

definition rnd :: "real \<Rightarrow> num" where
  "rnd x = (if x = 0 then 0 else sgn x * round_to (pow2 (ilog2 \<bar>x\<bar> - 52)) \<bar>x\<bar>)"

text \<open>A decimal literal of the source denotes the double nearest to it.\<close>

definition lit :: "real \<Rightarrow> num" where
  "lit x = rnd x"

definition fadd :: "num \<Rightarrow> num \<Rightarrow> num" where
  "fadd x y = rnd (x + y)"

definition fsub :: "num \<Rightarrow> num \<Rightarrow> num" where
  "fsub x y = rnd (x - y)"


section \<open>JavaScript strings\<close>

text \<open>
  A string is a list of 8-bit characters, read as the UTF-16 code units \<open>U+0000\<close> to \<open>U+00FF\<close>.
  Inputs with other code units are outside the model.
\<close>

definition is_upper_ascii :: "char \<Rightarrow> bool" where
  "is_upper_ascii c = (65 \<le> (of_char c :: nat) \<and> (of_char c :: nat) \<le> 90)"

definition is_lower_ascii :: "char \<Rightarrow> bool" where
  "is_lower_ascii c = (97 \<le> (of_char c :: nat) \<and> (of_char c :: nat) \<le> 122)"

definition is_digit :: "char \<Rightarrow> bool" where
  "is_digit c = (48 \<le> (of_char c :: nat) \<and> (of_char c :: nat) \<le> 57)"

text \<open>The class \<^verbatim>\<open>\w\<close>.\<close>

definition is_word_char :: "char \<Rightarrow> bool" where
  "is_word_char c = (is_lower_ascii c \<or> is_upper_ascii c \<or> is_digit c \<or> c = CHR ''_'')"

text \<open>The class \<^verbatim>\<open>\s\<close> (white space and line terminators), also what \<^verbatim>\<open>trim\<close> strips.\<close>

definition is_space :: "char \<Rightarrow> bool" where
  "is_space c = ((9 \<le> (of_char c :: nat) \<and> (of_char c :: nat) \<le> 13) \<or> c = CHR '' ''
     \<or> (of_char c :: nat) = 160)"

definition is_line_terminator :: "char \<Rightarrow> bool" where
  "is_line_terminator c = ((of_char c :: nat) = 10 \<or> (of_char c :: nat) = 13)"

text \<open>
  Upper and lower case differ in bit 5, for the ASCII letters and for the Latin-1 letters
  \<open>U+00C0\<close> to \<open>U+00DE\<close> (without the multiplication sign) and \<open>U+00E0\<close> to \<open>U+00FE\<close> (without
  the division sign). The upper-case forms of \<open>U+00B5\<close>, \<open>U+00DF\<close> and \<open>U+00FF\<close> are not 8-bit
  characters; these three are left as they are, which is what the regular expression engine's
  \<^verbatim>\<open>Canonicalize\<close> needs: none of them ever equals the canonical form of another 8-bit character.
\<close>

definition toUpperChar :: "char \<Rightarrow> char" where
  "toUpperChar c = (if is_lower_ascii c
       \<or> (224 \<le> (of_char c :: nat) \<and> (of_char c :: nat) \<le> 254 \<and> (of_char c :: nat) \<noteq> 247)
     then (case c of Char b0 b1 b2 b3 b4 b5 b6 b7 \<Rightarrow> Char b0 b1 b2 b3 b4 False b6 b7) else c)"

definition toLowerChar :: "char \<Rightarrow> char" where
  "toLowerChar c = (if is_upper_ascii c
       \<or> (192 \<le> (of_char c :: nat) \<and> (of_char c :: nat) \<le> 222 \<and> (of_char c :: nat) \<noteq> 215)
     then (case c of Char b0 b1 b2 b3 b4 b5 b6 b7 \<Rightarrow> Char b0 b1 b2 b3 b4 True b6 b7) else c)"

definition toLowerCase :: "string \<Rightarrow> string" where
  "toLowerCase s = map toLowerChar s"

definition toUpperCase :: "string \<Rightarrow> string" where
  "toUpperCase s = map toUpperChar s"

fun starts_with :: "string \<Rightarrow> string \<Rightarrow> bool" where
  "starts_with s [] = True"
| "starts_with [] (k # ks) = False"
| "starts_with (c # s) (k # ks) = (c = k \<and> starts_with s ks)"

text \<open>\<^verbatim>\<open>haystack.includes(needle)\<close>.\<close>

fun str_includes :: "string \<Rightarrow> string \<Rightarrow> bool" where
  "str_includes [] needle = (needle = [])"
| "str_includes (c # s) needle = (starts_with (c # s) needle \<or> str_includes s needle)"

definition trimStart :: "string \<Rightarrow> string" where
  "trimStart s = dropWhile is_space s"

definition trim :: "string \<Rightarrow> string" where
  "trim s = rev (trimStart (rev (trimStart s)))"

text \<open>
  \<^verbatim>\<open>s.split(/\s+/)\<close>: the pieces between the maximal runs of white space. \<open>split_ws\<close> carries the
  piece being read; \<open>split_skip\<close> runs over a separator.
\<close>

fun split_ws :: "string \<Rightarrow> string \<Rightarrow> string list"
  and split_skip :: "string \<Rightarrow> string list"
where
  "split_ws cur [] = [rev cur]"
| "split_ws cur (c # s) = (if is_space c then rev cur # split_skip s else split_ws (c # cur) s)"
| "split_skip [] = [[]]"
| "split_skip (c # s) = (if is_space c then split_skip s else split_ws [c] s)"

definition split_spaces :: "string \<Rightarrow> string list" where
  "split_spaces s = split_ws [] s"

text \<open>\<^verbatim>\<open>xs.join(sep)\<close> for an array of strings.\<close>

fun join :: "string \<Rightarrow> string list \<Rightarrow> string" where
  "join sep [] = []"
| "join sep [x] = x"
| "join sep (x # xs) = x @ sep @ join sep xs"


section \<open>Regular expressions\<close>

text \<open>
  The syntax of the regular expressions the classifier uses: characters, the classes \<^verbatim>\<open>.\<close>,
  \<^verbatim>\<open>\w\<close>, \<^verbatim>\<open>\s\<close>, \<^verbatim>\<open>\S\<close>, bracket classes and their negation, the assertions \<^verbatim>\<open>\b\<close>,
  \<^verbatim>\<open>^\<close>, \<^verbatim>\<open>$\<close>, sequence, alternation, quantifiers \<open>{min,max}\<close> (greedy or lazy) and
  capturing groups, numbered as in the source.
\<close>

datatype citem = CChar char | CRange char char | CWord | CSpace | CNonSpace

datatype regex =
    Chr char
  | Dot
  | WordCh
  | SpaceCh
  | NonSpaceCh
  | Cls "citem list"
  | NCls "citem list"
  | WordB
  | Bol
  | Eol
  | Eps
  | Seq regex regex
  | Alt regex regex
  | Quant nat "nat option" bool regex
  | Grp nat regex

fun str :: "string \<Rightarrow> regex" where
  "str [] = Eps"
| "str [c] = Chr c"
| "str (c # cs) = Seq (Chr c) (str cs)"

fun seqs :: "regex list \<Rightarrow> regex" where
  "seqs [] = Eps"
| "seqs [r] = r"
| "seqs (r # rs) = Seq r (seqs rs)"

fun alts :: "regex list \<Rightarrow> regex" where
  "alts [] = Eps"
| "alts [r] = r"
| "alts (r # rs) = Alt r (alts rs)"

text \<open>The quantifiers \<^verbatim>\<open>*\<close>, \<^verbatim>\<open>+\<close>, \<^verbatim>\<open>?\<close> and the lazy \<^verbatim>\<open>+?\<close>.\<close>

definition Rstar :: "regex \<Rightarrow> regex" where
  "Rstar r = Quant 0 None True r"

definition Rplus :: "regex \<Rightarrow> regex" where
  "Rplus r = Quant 1 None True r"

definition Ropt :: "regex \<Rightarrow> regex" where
  "Ropt r = Quant 0 (Some 1) True r"

definition Rlazy_plus :: "regex \<Rightarrow> regex" where
  "Rlazy_plus r = Quant 1 None False r"

text \<open>\<open>words [a, b, c]\<close> is \<^verbatim>\<open>a|b|c\<close>; \<open>plural w\<close> is \<^verbatim>\<open>ws?\<close>; \<open>wb r\<close> is \<^verbatim>\<open>\br\b\<close>.\<close>

definition words :: "string list \<Rightarrow> regex" where
  "words ws = alts (map str ws)"

definition plural :: "string \<Rightarrow> regex" where
  "plural w = Seq (str w) (Ropt (Chr CHR ''s''))"

definition wb :: "regex \<Rightarrow> regex" where
  "wb r = Seq WordB (Seq r WordB)"

text \<open>
  A match state: the character before the current position (none at the start of the input), the
  rest of the input, and the captures made so far.
\<close>

datatype mstate = MState (prev: "char option") (rest: string) (caps: "(nat \<times> string) list")

fun in_citem :: "char \<Rightarrow> citem \<Rightarrow> bool" where
  "in_citem c (CChar d) = (c = d)"
| "in_citem c (CRange lo hi) = ((of_char lo :: nat) \<le> of_char c \<and> (of_char c :: nat) \<le> of_char hi)"
| "in_citem c CWord = is_word_char c"
| "in_citem c CSpace = is_space c"
| "in_citem c CNonSpace = (\<not> is_space c)"

text \<open>Under the \<^verbatim>\<open>i\<close> flag a class holds a character when it holds one with the same canonical form.\<close>

fun in_citem_canon :: "char \<Rightarrow> citem \<Rightarrow> bool" where
  "in_citem_canon c (CChar d) = (toUpperChar c = toUpperChar d)"
| "in_citem_canon c (CRange lo hi) = (in_citem c (CRange lo hi) \<or> in_citem (toUpperChar c) (CRange lo hi)
      \<or> in_citem (toLowerChar c) (CRange lo hi))"
| "in_citem_canon c CWord = is_word_char c"
| "in_citem_canon c CSpace = is_space c"
| "in_citem_canon c CNonSpace = (\<not> is_space c)"

fun in_class :: "bool \<Rightarrow> char \<Rightarrow> citem list \<Rightarrow> bool" where
  "in_class ic c [] = False"
| "in_class ic c (i # is) = ((if ic then in_citem_canon c i else in_citem c i) \<or> in_class ic c is)"

fun step_char :: "(char \<Rightarrow> bool) \<Rightarrow> mstate \<Rightarrow> mstate list" where
  "step_char p (MState pv [] cs) = []"
| "step_char p (MState pv (c # s) cs) = (if p c then [MState (Some c) s cs] else [])"

fun is_word_opt :: "char option \<Rightarrow> bool" where
  "is_word_opt None = False"
| "is_word_opt (Some c) = is_word_char c"

fun next_char :: "string \<Rightarrow> char option" where
  "next_char [] = None"
| "next_char (c # s) = Some c"

fun shorter :: "'a list \<Rightarrow> 'a list \<Rightarrow> bool" where
  "shorter [] [] = False"
| "shorter [] (x # xs) = True"
| "shorter (y # ys) [] = False"
| "shorter (y # ys) (x # xs) = shorter ys xs"

text \<open>The end states of an iteration that consumed at least one character.\<close>

fun progress :: "mstate \<Rightarrow> mstate list \<Rightarrow> mstate list" where
  "progress x [] = []"
| "progress x (y # ys) = (if shorter (rest y) (rest x) then y # progress x ys else progress x ys)"

fun remove_caps :: "nat list \<Rightarrow> (nat \<times> string) list \<Rightarrow> (nat \<times> string) list" where
  "remove_caps gs [] = []"
| "remove_caps gs (kv # kvs) = (if fst kv \<in> set gs then remove_caps gs kvs else kv # remove_caps gs kvs)"

fun clear_caps :: "nat list \<Rightarrow> mstate \<Rightarrow> mstate" where
  "clear_caps gs (MState pv s cs) = MState pv s (remove_caps gs cs)"

fun dec_max :: "nat option \<Rightarrow> nat option" where
  "dec_max None = None"
| "dec_max (Some n) = Some (n - 1)"

fun longest :: "mstate list \<Rightarrow> nat" where
  "longest [] = 0"
| "longest (y # ys) = max (Suc (length (rest y))) (longest ys)"

text \<open>
  The quantifier of the ECMAScript specification (\<^verbatim>\<open>RepeatMatcher\<close>), on the list of the end
  states of the body \<open>f\<close>, in the order in which a backtracking matcher tries them: an iteration
  first forgets the captures \<open>gs\<close> of the body; once \<open>min\<close> is reached an iteration that consumed
  nothing is dropped; a greedy quantifier tries one more iteration before it stops, a lazy one
  stops first.
\<close>

function rep :: "(mstate \<Rightarrow> mstate list) \<Rightarrow> nat list \<Rightarrow> nat \<Rightarrow> nat option \<Rightarrow> bool \<Rightarrow> mstate \<Rightarrow> mstate list"
  and rep_list :: "(mstate \<Rightarrow> mstate list) \<Rightarrow> nat list \<Rightarrow> nat \<Rightarrow> nat option \<Rightarrow> bool \<Rightarrow> mstate list \<Rightarrow> mstate list"
where
  "rep f gs mn mx g x =
     (if mx = Some 0 then [x]
      else if mn \<noteq> 0 then rep_list f gs (mn - 1) (dec_max mx) g (f (clear_caps gs x))
      else if g then rep_list f gs 0 (dec_max mx) g (progress x (f (clear_caps gs x))) @ [x]
      else x # rep_list f gs 0 (dec_max mx) g (progress x (f (clear_caps gs x))))"
| "rep_list f gs mn mx g [] = []"
| "rep_list f gs mn mx g (y # ys) = rep f gs mn mx g y @ rep_list f gs mn mx g ys"
  by pat_completeness auto
termination
proof -
  have sl: "shorter ys xs \<Longrightarrow> length ys < length xs" for ys xs :: "char list"
    by (induction ys xs rule: shorter.induct) auto
  have lp: "longest (progress x ys) \<le> length (rest x)" for x ys
    by (induction ys) (auto dest: sl)
  show ?thesis
    apply (relation "inv_image (less_than <*lex*> less_than <*lex*> less_than)
       (\<lambda>a. case a of
          Inl (f, gs, mn, mx, g, x) \<Rightarrow> (mn, Suc (length (rest x)), 0)
        | Inr (f, gs, mn, mx, g, ys) \<Rightarrow> (mn, longest ys, Suc (length ys)))")
         apply (auto simp: less_Suc_eq_le lp)
    done
qed

fun grp_caps :: "nat \<Rightarrow> string \<Rightarrow> mstate list \<Rightarrow> mstate list" where
  "grp_caps n s0 [] = []"
| "grp_caps n s0 (MState pv s cs # ys) =
     MState pv s ((n, take (length s0 - length s) s0) # remove_caps [n] cs) # grp_caps n s0 ys"

fun groups :: "regex \<Rightarrow> nat list" where
  "groups (Seq r1 r2) = groups r1 @ groups r2"
| "groups (Alt r1 r2) = groups r1 @ groups r2"
| "groups (Quant mn mx g r) = groups r"
| "groups (Grp n r) = n # groups r"
| "groups r = []"

text \<open>
  \<open>matcher ic r x\<close> lists the states in which a match of \<open>r\<close> that starts in \<open>x\<close> can end, in
  the order of preference of the backtracking matcher (the first one is the match it reports);
  \<open>ic\<close> is the \<^verbatim>\<open>i\<close> flag.
\<close>

fun matcher :: "bool \<Rightarrow> regex \<Rightarrow> mstate \<Rightarrow> mstate list"
  and matcher_list :: "bool \<Rightarrow> regex \<Rightarrow> mstate list \<Rightarrow> mstate list"
where
  "matcher ic (Chr d) x = step_char (\<lambda>c. if ic then toUpperChar c = toUpperChar d else c = d) x"
| "matcher ic Dot x = step_char (\<lambda>c. \<not> is_line_terminator c) x"
| "matcher ic WordCh x = step_char is_word_char x"
| "matcher ic SpaceCh x = step_char is_space x"
| "matcher ic NonSpaceCh x = step_char (\<lambda>c. \<not> is_space c) x"
| "matcher ic (Cls is) x = step_char (\<lambda>c. in_class ic c is) x"
| "matcher ic (NCls is) x = step_char (\<lambda>c. \<not> in_class ic c is) x"
| "matcher ic WordB x = (if is_word_opt (prev x) \<noteq> is_word_opt (next_char (rest x)) then [x] else [])"
| "matcher ic Bol x = (if prev x = None then [x] else [])"
| "matcher ic Eol x = (if rest x = [] then [x] else [])"
| "matcher ic Eps x = [x]"
| "matcher ic (Seq r1 r2) x = matcher_list ic r2 (matcher ic r1 x)"
| "matcher ic (Alt r1 r2) x = matcher ic r1 x @ matcher ic r2 x"
| "matcher ic (Quant mn mx g r) x = rep (matcher ic r) (groups r) mn mx g x"
| "matcher ic (Grp n r) x = grp_caps n (rest x) (matcher ic r x)"
| "matcher_list ic r [] = []"
| "matcher_list ic r (x # xs) = matcher ic r x @ matcher_list ic r xs"

text \<open>
  \<^verbatim>\<open>RegExp.prototype.exec\<close> without the \<^verbatim>\<open>g\<close> flag: the first start position, from the left, at
  which the pattern matches; the result is the input from that position on and the end state.
\<close>

fun exec_from :: "bool \<Rightarrow> regex \<Rightarrow> char option \<Rightarrow> string \<Rightarrow> (string \<times> mstate) option" where
  "exec_from ic r pv [] = (case matcher ic r (MState pv [] []) of [] \<Rightarrow> None | y # ys \<Rightarrow> Some ([], y))"
| "exec_from ic r pv (c # s) = (case matcher ic r (MState pv (c # s) []) of
       [] \<Rightarrow> exec_from ic r (Some c) s
     | y # ys \<Rightarrow> Some (c # s, y))"

text \<open>\<^verbatim>\<open>pattern.test(input)\<close>.\<close>

definition re_test :: "bool \<Rightarrow> regex \<Rightarrow> string \<Rightarrow> bool" where
  "re_test ic r s = (case exec_from ic r None s of None \<Rightarrow> False | Some m \<Rightarrow> True)"

definition matched_text :: "string \<Rightarrow> mstate \<Rightarrow> string" where
  "matched_text s0 y = take (length s0 - length (rest y)) s0"

text \<open>
  \<^verbatim>\<open>input.match(pattern)\<close> without the \<^verbatim>\<open>g\<close> flag: \<open>None\<close> is \<^verbatim>\<open>null\<close>; otherwise the matched text
  and the captures (a group that took no part in the match is absent, \<^verbatim>\<open>undefined\<close>).
\<close>

definition re_match :: "bool \<Rightarrow> regex \<Rightarrow> string \<Rightarrow> (string \<times> (nat \<times> string) list) option" where
  "re_match ic r s = (case exec_from ic r None s of None \<Rightarrow> None
     | Some m \<Rightarrow> Some (matched_text (fst m) (snd m), caps (snd m)))"

definition capture :: "(string \<times> (nat \<times> string) list) \<Rightarrow> nat \<Rightarrow> string option" where
  "capture m k = map_of (snd m) k"

text \<open>
  \<^verbatim>\<open>input.match(pattern)\<close> with the \<^verbatim>\<open>g\<close> flag: the texts of the successive matches, each search
  starting where the previous match ended (one character further after an empty match). \<open>k\<close>
  counts the characters of the current match that are still to be skipped. The empty list stands
  for \<^verbatim>\<open>null\<close>.
\<close>

fun match_all_from :: "bool \<Rightarrow> regex \<Rightarrow> char option \<Rightarrow> string \<Rightarrow> nat \<Rightarrow> string list" where
  "match_all_from ic r pv [] k =
     (if k = 0 then (case matcher ic r (MState pv [] []) of [] \<Rightarrow> [] | y # ys \<Rightarrow> [[]]) else [])"
| "match_all_from ic r pv (c # s) k =
     (if k \<noteq> 0 then match_all_from ic r (Some c) s (k - 1)
      else (case matcher ic r (MState pv (c # s) []) of
          [] \<Rightarrow> match_all_from ic r (Some c) s 0
        | y # ys \<Rightarrow> matched_text (c # s) y
             # match_all_from ic r (Some c) s (length (matched_text (c # s) y) - 1)))"

definition match_all :: "bool \<Rightarrow> regex \<Rightarrow> string \<Rightarrow> string list" where
  "match_all ic r s = match_all_from ic r None s 0"


section \<open>The classifier: task types\<close>

record task_type =
  tt_id :: string
  tt_patterns :: "regex list"
  tt_keywords :: "string list"
  tt_tools :: "string list"
  confidence_boost :: num

text \<open>\<open>dots\<close> is \<^verbatim>\<open>.*\<close>; \<open>bword s\<close> is \<^verbatim>\<open>\bs\b\<close>; \<open>bgroup n ws\<close> is \<^verbatim>\<open>\b(a|b|c)\b\<close> with group number \<open>n\<close>.\<close>

definition dots :: regex where
  "dots = Rstar Dot"

definition bword :: "string \<Rightarrow> regex" where
  "bword s = wb (str s)"

definition bgroup :: "nat \<Rightarrow> string list \<Rightarrow> regex" where
  "bgroup n ws = wb (Grp n (words ws))"

definition FILE_READ :: task_type where
  "FILE_READ = \<lparr>
     tt_id = ''file_read'',
     tt_patterns = [
       seqs [bword ''read'', dots, bword ''file''],
       seqs [bword ''show'', dots, wb (Grp 1 (alts [plural ''content'', str ''file'', str ''code'']))],
       seqs [bword ''cat'', Rplus SpaceCh, Rplus NonSpaceCh],
       seqs [bword ''view'', dots, bgroup 1 [''file'', ''source'', ''code'']],
       seqs [bword ''open'', dots, bgroup 1 [''file'', ''document'']],
       seqs [bword ''display'', dots, wb (Grp 1 (alts [str ''file'', plural ''content'']))],
       seqs [WordB, str ''what'',
             Grp 1 (Alt (Seq (Ropt (Chr (CHR 0x27))) (Chr CHR ''s'')) (str '' is'')), str '' in'', WordB,
             dots, bgroup 2 [''file'', ''folder'', ''directory'']],
       seqs [bword ''list'', dots,
             wb (Grp 1 (alts [plural ''file'', str ''directory'', str ''folder'', str ''dir'']))],
       seqs [bword ''ls'', SpaceCh]],
     tt_keywords = [''read'', ''show'', ''view'', ''cat'', ''display'', ''contents'', ''open'', ''list'',
                 ''ls'', ''dir''],
     tt_tools = [''read_file'', ''list_directory''],
     confidence_boost = lit (1 / 10) \<rparr>"

definition FILE_WRITE :: task_type where
  "FILE_WRITE = \<lparr>
     tt_id = ''file_write'',
     tt_patterns = [
       seqs [bgroup 1 [''create'', ''write'', ''save'', ''make''], dots, bword ''file''],
       seqs [bword ''write'', dots, bword ''to''],
       seqs [bword ''save'', dots, bgroup 1 [''as'', ''to'']],
       seqs [bword ''create'', dots, bgroup 1 [''file'', ''script'', ''module'', ''component'']],
       seqs [bword ''generate'', dots, bgroup 1 [''file'', ''code'', ''script'']],
       seqs [bword ''add'', dots, bword ''file''],
       seqs [bword ''new'', dots, bgroup 1 [''file'', ''script'']]],
     tt_keywords = [''create'', ''write'', ''save'', ''generate'', ''new file'', ''make file''],
     tt_tools = [''create_file''],
     confidence_boost = lit (1 / 10) \<rparr>"

definition FILE_EDIT :: task_type where
  "FILE_EDIT = \<lparr>
     tt_id = ''file_edit'',
     tt_patterns = [
       seqs [bgroup 1 [''edit'', ''modify'', ''update'', ''change'', ''fix'', ''patch'', ''refactor''], dots,
             bgroup 2 [''file'', ''code'', ''function'', ''class'', ''line'']],
       seqs [bgroup 1 [''edit'', ''fix'', ''modify'', ''update'', ''patch''], Rplus SpaceCh, Rplus NonSpaceCh,
             Chr CHR ''.'', Rplus WordCh],
       seqs [bgroup 1 [''fix'', ''debug''], dots, bgroup 2 [''bug'', ''issue'', ''error'', ''problem''], dots,
             bgroup 3 [''in'']],
       seqs [bword ''replace'', dots, bgroup 1 [''in'', ''with'']],
       seqs [bword ''insert'', dots, bgroup 1 [''into'', ''at'', ''before'', ''after'']],
       seqs [bword ''remove'', dots, bgroup 1 [''from'', ''line'', ''function'']],
       seqs [bword ''delete'', dots, bgroup 1 [''line'', ''function'', ''block'']],
       seqs [bword ''append'', dots, bword ''to'']],
     tt_keywords = [''edit'', ''modify'', ''update'', ''change'', ''fix'', ''refactor'', ''replace'',
                 ''insert'', ''append''],
     tt_tools = [''edit_file'', ''read_file''],
     confidence_boost = lit (2 / 10) \<rparr>"

definition SHELL_COMMAND :: task_type where
  "SHELL_COMMAND = \<lparr>
     tt_id = ''shell_command'',
     tt_patterns = [
       seqs [bword ''run'', dots,
             bgroup 1 [''command'', ''script'', ''npm'', ''node'', ''python'', ''bash'', ''shell'']],
       bword ''execute'',
       seqs [bword ''install'', dots, bgroup 1 [''package'', ''dependency'', ''module'', ''npm'', ''pip'']],
       seqs [bword ''npm'', Rplus SpaceCh,
             Grp 1 (words [''install'', ''run'', ''start'', ''test'', ''build'', ''init'', ''publish'',
                           ''audit''])],
       seqs [bword ''pip'', Rplus SpaceCh, str ''install''],
       seqs [bword ''git'', Rplus SpaceCh,
             Grp 1 (words [''clone'', ''pull'', ''push'', ''commit'', ''status'', ''log'', ''diff'',
                           ''branch'', ''checkout''])],
       seqs [bword ''docker'', Rplus SpaceCh, Grp 1 (words [''build'', ''run'', ''compose'', ''pull'', ''push''])],
       seqs [bword ''curl'', SpaceCh],
       seqs [bword ''wget'', SpaceCh],
       bword ''chmod'',
       bword ''mkdir'',
       seqs [bword ''npx'', SpaceCh]],
     tt_keywords = [''run'', ''execute'', ''install'', ''npm'', ''pip'', ''git'', ''docker'', ''curl'',
                 ''bash'', ''shell'', ''command''],
     tt_tools = [''run_command''],
     confidence_boost = lit (2 / 10) \<rparr>"

definition HTTP_REQUEST :: task_type where
  "HTTP_REQUEST = \<lparr>
     tt_id = ''http_request'',
     tt_patterns = [
       seqs [bgroup 1 [''fetch'', ''get'', ''post'', ''put'', ''delete'', ''patch''], dots, WordB,
             Grp 2 (words [''api'', ''endpoint'', ''url'', ''http''])],
       seqs [bword ''call'', dots, bgroup 1 [''api'', ''endpoint'', ''service'']],
       seqs [bword ''request'', dots, bgroup 1 [''to'', ''from''], dots, WordB,
             Grp 2 (words [''api'', ''url'', ''http''])],
       seqs [WordB, str ''http'', Ropt (Cls [CChar CHR ''s'']), str ''://''],
       seqs [bword ''api'', dots, bgroup 1 [''call'', ''request'', ''fetch'']],
       bword ''webhook''],
     tt_keywords = [''fetch'', ''api'', ''endpoint'', ''request'', ''http'', ''url'', ''webhook'', ''REST''],
     tt_tools = [''http_request''],
     confidence_boost = lit (15 / 100) \<rparr>"

definition CODE_ANALYSIS :: task_type where
  "CODE_ANALYSIS = \<lparr>
     tt_id = ''code_analysis'',
     tt_patterns = [
       seqs [bgroup 1 [''analyse'', ''analyze'', ''review'', ''inspect'', ''audit'', ''lint'', ''check''], dots,
             bgroup 2 [''code'', ''file'', ''function'', ''module'', ''project'']],
       seqs [bword ''find'', dots,
             wb (Grp 1 (alts [plural ''bug'', plural ''issue'', plural ''error'', plural ''problem'']))],
       seqs [bword ''code'', dots, bgroup 1 [''review'', ''quality'', ''smell'']],
       seqs [bword ''what'', dots, bgroup 1 [''does'', ''is''], dots, bgroup 2 [''this'', ''the''], dots,
             bgroup 3 [''code'', ''function'', ''class'']],
       seqs [bword ''explain'', dots, bgroup 1 [''code'', ''function'', ''class'', ''module'']],
       bword ''debug''],
     tt_keywords = [''analyse'', ''review'', ''inspect'', ''audit'', ''lint'', ''debug'', ''explain code'',
                 ''code review''],
     tt_tools = [''read_file'', ''search_files'', ''run_command''],
     confidence_boost = lit (5 / 100) \<rparr>"

definition PROJECT_SCAFFOLD :: task_type where
  "PROJECT_SCAFFOLD = \<lparr>
     tt_id = ''project_scaffold'',
     tt_patterns = [
       seqs [bgroup 1 [''scaffold'', ''bootstrap'', ''initialise'', ''initialize'', ''setup'', ''set up'',
                  ''start''], dots,
             bgroup 2 [''project'', ''app'', ''application'', ''repo'', ''repository'']],
       seqs [bword ''new'', dots, bgroup 1 [''project'', ''app'', ''application'']],
       seqs [bword ''create'', dots, bgroup 1 [''project'', ''app'', ''application'', ''repo'']],
       bword ''init''],
     tt_keywords = [''scaffold'', ''bootstrap'', ''initialise'', ''setup'', ''new project'', ''create app'',
                 ''init''],
     tt_tools = [''run_command'', ''create_file'', ''run_command''],
     confidence_boost = lit (1 / 10) \<rparr>"

definition SEARCH :: task_type where
  "SEARCH = \<lparr>
     tt_id = ''search'',
     tt_patterns = [
       seqs [bgroup 1 [''search'', ''find'', ''grep'', ''look for'', ''locate''], dots,
             bgroup 2 [''in'', ''for'', ''across'']],
       seqs [bword ''where'', dots, bgroup 1 [''is'', ''are'', ''does'']],
       bword ''grep'',
       seqs [bword ''find'', dots,
             bgroup 1 [''file'', ''function'', ''class'', ''variable'', ''string'', ''text'', ''pattern'']]],
     tt_keywords = [''search'', ''find'', ''grep'', ''locate'', ''where is''],
     tt_tools = [''search_files'', ''run_command''],
     confidence_boost = lit (1 / 10) \<rparr>"

definition TESTING :: task_type where
  "TESTING = \<lparr>
     tt_id = ''testing'',
     tt_patterns = [
       bgroup 1 [''test'', ''spec'', ''assert'', ''verify'', ''validate''],
       seqs [bword ''run'', dots, wb (plural ''test'')],
       seqs [bword ''write'', dots, bgroup 1 [''test'', ''spec'']],
       seqs [WordB, str ''unit'', Rstar SpaceCh, str ''test''],
       seqs [WordB, str ''integration'', Rstar SpaceCh, str ''test''],
       bword ''coverage''],
     tt_keywords = [''test'', ''spec'', ''assert'', ''verify'', ''coverage'', ''unit test'',
                 ''integration test''],
     tt_tools = [''run_command'', ''create_file'', ''read_file''],
     confidence_boost = lit (1 / 10) \<rparr>"

definition DEPLOYMENT :: task_type where
  "DEPLOYMENT = \<lparr>
     tt_id = ''deployment'',
     tt_patterns = [
       seqs [bgroup 1 [''deploy'', ''release'', ''publish'', ''ship'', ''push to''], dots,
             bgroup 2 [''production'', ''staging'', ''server'', ''cloud'', ''npm'', ''docker'']],
       seqs [bword ''build'', dots, bgroup 1 [''for'', ''and''], dots, WordB,
             Grp 2 (words [''production'', ''deploy''])],
       seqs [WordB, str ''ci'', Ropt (Chr CHR ''/''), str ''cd'', WordB],
       bword ''pipeline''],
     tt_keywords = [''deploy'', ''release'', ''publish'', ''ship'', ''production'', ''staging'', ''CI/CD'',
                 ''pipeline''],
     tt_tools = [''run_command'', ''create_file''],
     confidence_boost = lit (1 / 10) \<rparr>"

text \<open>\<^verbatim>\<open>Object.entries(TASK_TYPES)\<close>: the task types in the order in which the table lists them.\<close>

definition TASK_TYPES :: "task_type list" where
  "TASK_TYPES = [FILE_READ, FILE_WRITE, FILE_EDIT, SHELL_COMMAND, HTTP_REQUEST, CODE_ANALYSIS,
     PROJECT_SCAFFOLD, SEARCH, TESTING, DEPLOYMENT]"


section \<open>The classifier: entity extraction\<close>

definition path_chars :: regex where
  "path_chars = Rplus (Cls [CWord, CChar CHR ''.'', CChar CHR ''-''])"

definition FILE_PATH_PATTERN :: regex where
  "FILE_PATH_PATTERN = seqs [Alt Bol SpaceCh,
     Grp 1 (seqs [Ropt (Seq (Quant 0 (Some 2) True (Chr CHR ''.'')) (Chr CHR ''/'')),
                  Rstar (Seq path_chars (Chr CHR ''/'')),
                  path_chars, Chr CHR ''.'', Rplus (Cls [CWord])]),
     Alt SpaceCh Eol]"

definition ABSOLUTE_PATH_PATTERN :: regex where
  "ABSOLUTE_PATH_PATTERN = seqs [Alt Bol SpaceCh,
     Grp 1 (seqs [Chr CHR ''/'', Rstar (Seq path_chars (Chr CHR ''/'')), path_chars]),
     Alt SpaceCh Eol]"

definition URL_PATTERN :: regex where
  "URL_PATTERN = seqs [str ''http'', Ropt (Chr CHR ''s''), str ''://'', Rplus (NCls [CSpace])]"

definition npm_chars :: regex where
  "npm_chars = Rplus (Cls [CWord, CChar CHR ''@'', CChar CHR ''/'', CChar CHR ''.'', CChar CHR ''-''])"

definition NPM_INSTALL_PATTERN :: regex where
  "NPM_INSTALL_PATTERN = seqs [str ''npm'', Rplus SpaceCh, str ''install'', Rplus SpaceCh,
     Grp 1 (Seq npm_chars (Rstar (Seq (Rplus SpaceCh) npm_chars)))]"

definition PIP_INSTALL_PATTERN :: regex where
  "PIP_INSTALL_PATTERN = seqs [str ''pip'', Rplus SpaceCh, str ''install'', Rplus SpaceCh,
     Grp 1 (Seq path_chars (Rstar (Seq (Rplus SpaceCh) path_chars)))]"

definition GIT_PATTERN :: regex where
  "GIT_PATTERN = seqs [str ''git'', Rplus SpaceCh,
     Grp 1 (words [''clone'', ''pull'', ''push'', ''commit'', ''status'', ''log'', ''diff'', ''branch'',
                   ''checkout'', ''merge'', ''rebase'', ''stash'', ''tag'']),
     Ropt (Seq (Rplus SpaceCh) (Grp 2 (Rlazy_plus Dot))),
     Seq (Rstar SpaceCh) Eol]"

record git_op =
  operation :: string
  op_args :: string

record entities =
  filePaths :: "string list"
  urls :: "string list"
  commands :: "string list"
  packages :: "string list"
  gitOps :: "git_op list"

text \<open>
  \<^verbatim>\<open>if (m) entities.packages.push(...m[1].split(/\s+/))\<close>. Group 1 takes part in every match of
  the two install patterns.
\<close>

definition packages_of :: "(string \<times> (nat \<times> string) list) option \<Rightarrow> string list" where
  "packages_of m = (case m of None \<Rightarrow> []
     | Some mm \<Rightarrow> (case capture mm 1 of None \<Rightarrow> [] | Some p \<Rightarrow> split_spaces p))"

text \<open>
  \<^verbatim>\<open>if (gitMatch) entities.gitOps.push({operation: gitMatch[1].toLowerCase(),
  args: gitMatch[2] ? gitMatch[2].trim() : ''})\<close>.
\<close>

definition git_ops_of :: "(string \<times> (nat \<times> string) list) option \<Rightarrow> git_op list" where
  "git_ops_of m = (case m of None \<Rightarrow> []
     | Some mm \<Rightarrow> (case capture mm 1 of None \<Rightarrow> []
         | Some opn \<Rightarrow> [\<lparr> operation = toLowerCase opn,
                         op_args = (case capture mm 2 of None \<Rightarrow> [] | Some a \<Rightarrow> if a = [] then [] else trim a) \<rparr>]))"

text \<open>
  \<^verbatim>\<open>new RegExp(PATTERN, 'g')\<close> keeps the source of the pattern and replaces its flags by \<^verbatim>\<open>g\<close>,
  so the three global searches are case-sensitive, the one for URLs too.
\<close>

definition extractEntities :: "string \<Rightarrow> entities" where
  "extractEntities input = \<lparr>
     filePaths = map trim (match_all False FILE_PATH_PATTERN input)
               @ map trim (match_all False ABSOLUTE_PATH_PATTERN input),
     urls = match_all False URL_PATTERN input,
     commands = [],
     packages = packages_of (re_match True NPM_INSTALL_PATTERN input)
              @ packages_of (re_match True PIP_INSTALL_PATTERN input),
     gitOps = git_ops_of (re_match True GIT_PATTERN input) \<rparr>"


section \<open>The classifier: scoring\<close>

record candidate =
  taskType :: string
  c_confidence :: num
  matchedPatterns :: nat
  matchedKeywords :: nat
  c_tools :: "string list"
  c_entities :: entities

text \<open>
  The two inner loops of \<^verbatim>\<open>scoreTaskTypes\<close> on the triple \<^verbatim>\<open>(score, matchedPatterns,
  matchedKeywords)\<close>. All patterns of the table carry the \<^verbatim>\<open>i\<close> flag.
\<close>

fun pattern_loop :: "string \<Rightarrow> regex list \<Rightarrow> num \<times> nat \<times> nat \<Rightarrow> num \<times> nat \<times> nat" where
  "pattern_loop input [] acc = acc"
| "pattern_loop input (p # ps) (score, mp, mk) =
     pattern_loop input ps
       (if re_test True p input then (fadd score (lit (3 / 10)), Suc mp, mk) else (score, mp, mk))"

fun keyword_loop :: "string \<Rightarrow> string list \<Rightarrow> num \<times> nat \<times> nat \<Rightarrow> num \<times> nat \<times> nat" where
  "keyword_loop inputLower [] acc = acc"
| "keyword_loop inputLower (k # ks) (score, mp, mk) =
     keyword_loop inputLower ks
       (if str_includes inputLower (toLowerCase k) then (fadd score (lit (1 / 10)), mp, Suc mk)
        else (score, mp, mk))"

definition boost_if :: "bool \<Rightarrow> task_type \<Rightarrow> num \<Rightarrow> num" where
  "boost_if c t score = (if c then fadd score (confidence_boost t) else score)"

text \<open>The four entity-based \<^verbatim>\<open>if\<close> statements, in the order of the source.\<close>

definition entity_boost :: "entities \<Rightarrow> task_type \<Rightarrow> num \<Rightarrow> num" where
  "entity_boost e t score =
     boost_if (packages e \<noteq> [] \<and> tt_id t = ''shell_command'') t
       (boost_if (gitOps e \<noteq> [] \<and> tt_id t = ''shell_command'') t
         (boost_if (urls e \<noteq> [] \<and> tt_id t = ''http_request'') t
           (boost_if (filePaths e \<noteq> []
                \<and> tt_id t \<in> set [''file_read'', ''file_write'', ''file_edit'', ''code_analysis'']) t
              score)))"

definition emit :: "entities \<Rightarrow> task_type \<Rightarrow> num \<Rightarrow> nat \<Rightarrow> nat \<Rightarrow> candidate list" where
  "emit e t conf mp mk = (if 0 < conf
     then [\<lparr> taskType = tt_id t, c_confidence = conf, matchedPatterns = mp, matchedKeywords = mk,
             c_tools = tt_tools t, c_entities = e \<rparr>]
     else [])"

text \<open>
  The end of one round of the outer loop, from the triple the two inner loops leave: the entity
  boosts, the cap \<^verbatim>\<open>Math.min(score, 1.0)\<close> and the push.
\<close>

fun finish_score :: "entities \<Rightarrow> task_type \<Rightarrow> num \<times> nat \<times> nat \<Rightarrow> candidate list" where
  "finish_score e t (score, mp, mk) = emit e t (min (entity_boost e t score) 1) mp mk"

text \<open>One round of the outer loop: what the task type \<open>t\<close> adds to \<^verbatim>\<open>scores\<close>.\<close>

definition score_type :: "string \<Rightarrow> string \<Rightarrow> entities \<Rightarrow> task_type \<Rightarrow> candidate list" where
  "score_type input inputLower e t =
     finish_score e t (keyword_loop inputLower (tt_keywords t) (pattern_loop input (tt_patterns t) (0, 0, 0)))"

fun score_all :: "string \<Rightarrow> string \<Rightarrow> entities \<Rightarrow> task_type list \<Rightarrow> candidate list" where
  "score_all input inputLower e [] = []"
| "score_all input inputLower e (t # ts) = score_type input inputLower e t @ score_all input inputLower e ts"

text \<open>
  \<^verbatim>\<open>scores.sort((a, b) => b.confidence - a.confidence)\<close>. \<^verbatim>\<open>Array.prototype.sort\<close> is stable
  (ECMAScript 2019), and a stable sort has one result for a comparator that is a total preorder,
  whatever the algorithm; insertion from the right computes it.
\<close>

definition compare_scores :: "candidate \<Rightarrow> candidate \<Rightarrow> num" where
  "compare_scores a b = fsub (c_confidence b) (c_confidence a)"

fun insert_score :: "candidate \<Rightarrow> candidate list \<Rightarrow> candidate list" where
  "insert_score a [] = [a]"
| "insert_score a (b # bs) = (if compare_scores a b \<le> 0 then a # b # bs else b # insert_score a bs)"

fun sort_scores :: "candidate list \<Rightarrow> candidate list" where
  "sort_scores [] = []"
| "sort_scores (a # as) = insert_score a (sort_scores as)"

definition scoreTaskTypes :: "string \<Rightarrow> candidate list" where
  "scoreTaskTypes input =
     sort_scores (score_all input (toLowerCase input) (extractEntities input) TASK_TYPES)"


section \<open>The classifier: classification\<close>

record classification =
  intent :: string
  confidence :: num
  needsModel :: bool
  reason :: string
  tools :: "string list"
  entities :: entities
  allScores :: "candidate list"

text \<open>\<^verbatim>\<open>scores.length > 1 && (top.confidence - scores[1].confidence) < 0.1\<close>.\<close>

fun isAmbiguous :: "candidate \<Rightarrow> candidate list \<Rightarrow> bool" where
  "isAmbiguous topc [] = False"
| "isAmbiguous topc (second # others) = (fsub (c_confidence topc) (c_confidence second) < lit (1 / 10))"

definition classify :: "string \<Rightarrow> num \<Rightarrow> classification" where
  "classify input threshold = (case scoreTaskTypes input of
       [] \<Rightarrow> \<lparr> intent = ''unknown'', confidence = 0, needsModel = True, reason = ''no_pattern_match'',
               tools = [], entities = extractEntities input, allScores = [] \<rparr>
     | topc # others \<Rightarrow>
         if threshold \<le> c_confidence topc
         then \<lparr> intent = taskType topc, confidence = c_confidence topc,
                needsModel = isAmbiguous topc others,
                reason = (if isAmbiguous topc others then ''ambiguous_top_scores'' else ''deterministic_match''),
                tools = c_tools topc, entities = c_entities topc, allScores = take 3 (topc # others) \<rparr>
         else \<lparr> intent = taskType topc, confidence = c_confidence topc, needsModel = True,
                reason = ''low_confidence'', tools = c_tools topc, entities = c_entities topc,
                allScores = take 3 (topc # others) \<rparr>)"

text \<open>The default value of the parameter \<^verbatim>\<open>threshold\<close>.\<close>

definition default_threshold :: num where
  "default_threshold = lit (4 / 10)"


section \<open>JavaScript values\<close>

text \<open>
  Tool arguments, tool results, the plan a model returns, the records of the trace and the
  values that are thrown are JavaScript data: objects are association lists in insertion order,
  numbers are finite, and \<open>JError name message\<close> is an instance of \<^verbatim>\<open>Error\<close> or of one of its
  subclasses, with the \<^verbatim>\<open>name\<close> of its prototype and its \<^verbatim>\<open>message\<close>.
\<close>

datatype jsval =
    JUndefined
  | JNull
  | JBool bool
  | JNum num
  | JStr string
  | JArr "jsval list"
  | JObj "(string \<times> jsval) list"
  | JError string string

text \<open>
  \<^verbatim>\<open>throw\<close> accepts every value, \<^verbatim>\<open>null\<close> and \<^verbatim>\<open>undefined\<close> included, and a promise can be
  rejected with every value: what a \<^verbatim>\<open>catch\<close> clause receives is a value.
\<close>

type_synonym exn = jsval

fun nullish :: "jsval \<Rightarrow> bool" where
  "nullish JUndefined = True"
| "nullish JNull = True"
| "nullish v = False"

fun truthy :: "jsval \<Rightarrow> bool" where
  "truthy JUndefined = False"
| "truthy JNull = False"
| "truthy (JBool b) = b"
| "truthy (JNum n) = (n \<noteq> 0)"
| "truthy (JStr s) = (s \<noteq> [])"
| "truthy (JArr xs) = True"
| "truthy (JObj kvs) = True"
| "truthy (JError n m) = True"

text \<open>\<^verbatim>\<open>a || b\<close>.\<close>

definition or_js :: "jsval \<Rightarrow> jsval \<Rightarrow> jsval" where
  "or_js a b = (if truthy a then a else b)"

fun lookup_js :: "(string \<times> jsval) list \<Rightarrow> string \<Rightarrow> jsval" where
  "lookup_js [] k = JUndefined"
| "lookup_js (kv # kvs) k = (if fst kv = k then snd kv else lookup_js kvs k)"

text \<open>
  \<^verbatim>\<open>v.k\<close> on a value that is neither \<^verbatim>\<open>null\<close> nor \<^verbatim>\<open>undefined\<close>, for the property names the
  orchestrator reads (none of them is a method of a prototype, and none is \<^verbatim>\<open>stack\<close>).
\<close>

fun get_field :: "jsval \<Rightarrow> string \<Rightarrow> jsval" where
  "get_field (JObj kvs) k = lookup_js kvs k"
| "get_field (JError n m) k = (if k = ''message'' then JStr m else if k = ''name'' then JStr n else JUndefined)"
| "get_field (JArr xs) k = (if k = ''length'' then JNum (of_nat (length xs)) else JUndefined)"
| "get_field (JStr s) k = (if k = ''length'' then JNum (of_nat (length s)) else JUndefined)"
| "get_field v k = JUndefined"

definition type_error :: "jsval \<Rightarrow> string \<Rightarrow> exn" where
  "type_error v k = JError ''TypeError''
     (''Cannot read properties of '' @ (if v = JNull then ''null'' else ''undefined'')
      @ '' (reading '' @ [CHR 0x27] @ k @ [CHR 0x27] @ '')'')"

text \<open>\<^verbatim>\<open>v.k\<close>, which throws a \<^verbatim>\<open>TypeError\<close> on \<^verbatim>\<open>null\<close> and \<^verbatim>\<open>undefined\<close>, and \<^verbatim>\<open>v?.k\<close>.\<close>

definition get_prop :: "jsval \<Rightarrow> string \<Rightarrow> exn + jsval" where
  "get_prop v k = (if nullish v then Inl (type_error v k) else Inr (get_field v k))"

definition opt_prop :: "jsval \<Rightarrow> string \<Rightarrow> jsval" where
  "opt_prop v k = (if nullish v then JUndefined else get_field v k)"

text \<open>
  What \<^verbatim>\<open>for (const x of v)\<close> runs over: the elements of an array, the characters of a string.
  Every other value throws a \<^verbatim>\<open>TypeError\<close>, whose message is the engine's and depends on the
  value: \<open>msg\<close> gives it.
\<close>

fun iterate :: "(jsval \<Rightarrow> string) \<Rightarrow> jsval \<Rightarrow> exn + jsval list" where
  "iterate msg (JArr xs) = Inr xs"
| "iterate msg (JStr s) = Inr (map (\<lambda>c. JStr [c]) s)"
| "iterate msg v = Inl (JError ''TypeError'' (msg v))"

text \<open>
  The string that a template literal \<^verbatim>\<open>`${v}`\<close> inserts for a value: \<^verbatim>\<open>ToString(v)\<close>. \<open>nts\<close> is
  \<^verbatim>\<open>Number.prototype.toString\<close>.
\<close>

fun to_string :: "(num \<Rightarrow> string) \<Rightarrow> jsval \<Rightarrow> string" where
  "to_string nts JUndefined = ''undefined''"
| "to_string nts JNull = ''null''"
| "to_string nts (JBool b) = (if b then ''true'' else ''false'')"
| "to_string nts (JNum n) = nts n"
| "to_string nts (JStr s) = s"
| "to_string nts (JArr xs) = join '','' (map (\<lambda>x. if nullish x then [] else to_string nts x) xs)"
| "to_string nts (JObj kvs) = ''[object Object]''"
| "to_string nts (JError n m) = (if n = [] then m else if m = [] then n else n @ '': '' @ m)"

fun obj_set :: "string \<Rightarrow> jsval \<Rightarrow> (string \<times> jsval) list \<Rightarrow> (string \<times> jsval) list" where
  "obj_set k v [] = [(k, v)]"
| "obj_set k v (kv # kvs) = (if fst kv = k then (k, v) # kvs else kv # obj_set k v kvs)"

fun obj_assign :: "(string \<times> jsval) list \<Rightarrow> (string \<times> jsval) list \<Rightarrow> (string \<times> jsval) list" where
  "obj_assign kvs [] = kvs"
| "obj_assign kvs (kv # others) = obj_assign (obj_set (fst kv) (snd kv) kvs) others"

fun digit_char :: "nat \<Rightarrow> char" where
  "digit_char n = (''0123456789'' ! (n mod 10))"

fun index_key :: "nat \<Rightarrow> string" where
  "index_key n = (if n < 10 then [digit_char n] else index_key (n div 10) @ [digit_char n])"

fun indexed :: "nat \<Rightarrow> jsval list \<Rightarrow> (string \<times> jsval) list" where
  "indexed n [] = []"
| "indexed n (x # xs) = (index_key n, x) # indexed (Suc n) xs"

text \<open>The own enumerable properties that \<^verbatim>\<open>{...v}\<close> copies.\<close>

fun own_properties :: "jsval \<Rightarrow> (string \<times> jsval) list" where
  "own_properties (JObj kvs) = kvs"
| "own_properties (JArr xs) = indexed 0 xs"
| "own_properties (JStr s) = indexed 0 (map (\<lambda>c. JStr [c]) s)"
| "own_properties v = []"

text \<open>\<^verbatim>\<open>{ ...a, ...b }\<close>.\<close>

definition spread2 :: "jsval \<Rightarrow> jsval \<Rightarrow> jsval" where
  "spread2 a b = JObj (obj_assign (obj_assign [] (own_properties a)) (own_properties b))"


section \<open>The planner\<close>

record step =
  tool :: string
  args :: jsval

record plan =
  p_intent :: string
  steps :: "step list"
  requiresModelForPlanning :: bool

text \<open>\<^verbatim>\<open>xs[0] || null\<close> for an array of strings.\<close>

fun first_or_null :: "string list \<Rightarrow> string option" where
  "first_or_null [] = None"
| "first_or_null (x # xs) = (if x = [] then None else Some x)"

definition HTTP_METHOD_PATTERN :: regex where
  "HTTP_METHOD_PATTERN = bgroup 1 [''post'', ''put'', ''patch'', ''delete'']"

definition SEARCH_TERM_PATTERN :: regex where
  "SEARCH_TERM_PATTERN = seqs [words [''search'', ''find'', ''grep'', ''look for'', ''locate''], Rplus SpaceCh,
     Ropt (Seq (str ''for'') (Rplus SpaceCh)),
     Ropt (Cls [CChar (CHR 0x22), CChar (CHR 0x27)]),
     Grp 1 (Rlazy_plus Dot),
     Ropt (Cls [CChar (CHR 0x22), CChar (CHR 0x27)]),
     Rplus SpaceCh, words [''in'', ''across'', ''within'']]"

definition RUN_TESTS_PATTERN :: regex where
  "RUN_TESTS_PATTERN = seqs [bword ''run'', dots, wb (plural ''test'')]"

text \<open>
  \<^verbatim>\<open>m[1]\<close> of a match whose group 1 takes part in every match (the method and the search
  term patterns).
\<close>

definition group1 :: "(string \<times> (nat \<times> string) list) \<Rightarrow> string" where
  "group1 m = (case capture m 1 of None \<Rightarrow> [] | Some v \<Rightarrow> v)"

definition one_step :: "string \<Rightarrow> string \<Rightarrow> (string \<times> jsval) list \<Rightarrow> bool \<Rightarrow> plan" where
  "one_step i t a rm = \<lparr> p_intent = i, steps = [\<lparr> tool = t, args = JObj a \<rparr>], requiresModelForPlanning = rm \<rparr>"

definition no_steps :: "string \<Rightarrow> plan" where
  "no_steps i = \<lparr> p_intent = i, steps = [], requiresModelForPlanning = True \<rparr>"

definition git_command :: "git_op \<Rightarrow> string" where
  "git_command opn = ''git '' @ operation opn @ (if op_args opn \<noteq> [] then '' '' @ op_args opn else [])"

definition http_method :: "string \<Rightarrow> string" where
  "http_method input = (case re_match True HTTP_METHOD_PATTERN input of
       None \<Rightarrow> ''GET''
     | Some m \<Rightarrow> toUpperCase (group1 m))"

definition planFromIntent :: "classification \<Rightarrow> string \<Rightarrow> plan" where
  "planFromIntent c input =
    (if intent c = ''file_read'' then
       (case first_or_null (filePaths (entities c)) of
          Some target \<Rightarrow> one_step (intent c) ''read_file'' [(''path'', JStr target)] False
        | None \<Rightarrow> one_step (intent c) ''list_directory'' [(''path'', JStr ''.'')] True)
     else if intent c = ''file_write'' then
       (case first_or_null (filePaths (entities c)) of
          Some target \<Rightarrow> one_step (intent c) ''create_file'' [(''path'', JStr target), (''content'', JNull)] True
        | None \<Rightarrow> no_steps (intent c))
     else if intent c = ''file_edit'' then
       (case first_or_null (filePaths (entities c)) of
          Some target \<Rightarrow> \<lparr> p_intent = intent c,
             steps = [\<lparr> tool = ''read_file'', args = JObj [(''path'', JStr target)] \<rparr>,
                      \<lparr> tool = ''edit_file'', args = JObj [(''path'', JStr target), (''edits'', JNull)] \<rparr>],
             requiresModelForPlanning = True \<rparr>
        | None \<Rightarrow> no_steps (intent c))
     else if intent c = ''shell_command'' then
       (case gitOps (entities c) of
          opn # ops \<Rightarrow> one_step (intent c) ''run_command'' [(''command'', JStr (git_command opn))] False
        | [] \<Rightarrow>
           if packages (entities c) \<noteq> [] then
             one_step (intent c) ''run_command''
               [(''command'', JStr ((if re_test True (str ''npm'') input then ''npm install '' else ''pip install '')
                                    @ join '' '' (packages (entities c))))] False
           else no_steps (intent c))
     else if intent c = ''http_request'' then
       (case first_or_null (urls (entities c)) of
          Some url \<Rightarrow> one_step (intent c) ''http_request''
             [(''url'', JStr url), (''method'', JStr (http_method input)), (''body'', JNull),
              (''headers'', JObj [])] False
        | None \<Rightarrow> no_steps (intent c))
     else if intent c = ''search'' then
       (case re_match True SEARCH_TERM_PATTERN input of
          Some m \<Rightarrow> one_step (intent c) ''search_files''
             [(''path'', JStr (case first_or_null (filePaths (entities c)) of Some target \<Rightarrow> target | None \<Rightarrow> ''.'')),
              (''pattern'', JStr (trim (group1 m)))] False
        | None \<Rightarrow> no_steps (intent c))
     else if intent c = ''testing'' then
       (if re_test True RUN_TESTS_PATTERN input
        then one_step (intent c) ''run_command'' [(''command'', JStr ''npm test'')] False
        else no_steps (intent c))
     else no_steps (intent c))"


section \<open>The workflow orchestrator\<close>

text \<open>
  The counters of \<^verbatim>\<open>this.metrics\<close>. They are JavaScript numbers that start at zero and are only
  incremented; they are modelled as natural numbers (an increment is exact below \<open>2 ^ 53\<close>).
\<close>

record metrics =
  totalTasks :: nat
  deterministicTasks :: nat
  modelFallbacks :: nat
  modelCallsForPlanning :: nat
  modelCallsForResponse :: nat
  errors :: nat
  byIntent :: "string \<rightharpoonup> nat"

record snapshot =
  counters :: metrics
  deterministicRate :: string
  modelFallbackRate :: string

record result =
  response :: jsval
  r_metrics :: snapshot
  r_trace :: "jsval list"
  deterministic :: bool
  r_classification :: "classification option"
  r_results :: "jsval list option"
  r_error :: "jsval option"
  modelUsed :: bool
  modelUsedForPlanning :: bool

text \<open>
  The model adapter. Its calls may change the world outside the orchestrator (state \<open>'w\<close>) and
  may throw.
\<close>

record 'w model_provider =
  complete :: "'w \<Rightarrow> string \<Rightarrow> string \<Rightarrow> 'w \<times> (exn + jsval)"
  processAgentLoop :: "'w \<Rightarrow> string \<Rightarrow> 'w \<times> (exn + jsval)"

record templates =
  t_success :: "jsval \<Rightarrow> jsval \<Rightarrow> exn + jsval"
  t_error :: "jsval \<Rightarrow> jsval \<Rightarrow> exn + jsval"

text \<open>
  What the orchestrator is given and what the JavaScript runtime provides: the tool executor,
  the model adapter (\<open>None\<close> is \<^verbatim>\<open>null\<close>), \<^verbatim>\<open>warn\<close> of the logger, \<^verbatim>\<open>JSON.parse\<close>, \<^verbatim>\<open>JSON.stringify\<close>,
  \<^verbatim>\<open>Number.prototype.toFixed\<close>, \<^verbatim>\<open>Number.prototype.toString\<close> and the message of the engine for
  a value that is not iterable. The validators and the response templates of the two dispatch
  tables are JavaScript functions over arbitrary tool results; the control flow of
  \<^verbatim>\<open>process\<close> depends on them only through the value they return or the exception they throw,
  so the two tables are parameters as well, each with its \<^verbatim>\<open>default\<close> entry.
\<close>

record 'w env =
  executeTool :: "'w \<Rightarrow> jsval \<Rightarrow> jsval \<Rightarrow> 'w \<times> (exn + jsval)"
  model :: "'w model_provider option"
  logger_warn :: "'w \<Rightarrow> string \<Rightarrow> 'w \<times> (exn + unit)"
  json_parse :: "string \<Rightarrow> exn + jsval"
  json_stringify :: "jsval \<Rightarrow> string"
  toFixed :: "nat \<Rightarrow> num \<Rightarrow> string"
  num_to_string :: "num \<Rightarrow> string"
  not_iterable :: "jsval \<Rightarrow> string"
  VALIDATORS :: "string \<rightharpoonup> (jsval \<Rightarrow> exn + jsval)"
  VALIDATORS_default :: "jsval \<Rightarrow> exn + jsval"
  RESPONSE_TEMPLATES :: "string \<rightharpoonup> templates"
  RESPONSE_TEMPLATES_default :: templates

record config =
  confidenceThreshold :: num
  maxRetries :: num

text \<open>\<^verbatim>\<open>options.confidenceThreshold || 0.4\<close> and \<^verbatim>\<open>options.maxRetries || 2\<close>.\<close>

definition option_or :: "num option \<Rightarrow> num \<Rightarrow> num" where
  "option_or v d = (case v of None \<Rightarrow> d | Some x \<Rightarrow> if x = 0 then d else x)"

definition new_config :: "num option \<Rightarrow> num option \<Rightarrow> config" where
  "new_config threshold retries =
     \<lparr> confidenceThreshold = option_or threshold (lit (4 / 10)), maxRetries = option_or retries 2 \<rparr>"

definition initial_metrics :: metrics where
  "initial_metrics = \<lparr> totalTasks = 0, deterministicTasks = 0, modelFallbacks = 0,
     modelCallsForPlanning = 0, modelCallsForResponse = 0, errors = 0, byIntent = Map.empty \<rparr>"

text \<open>
  The variables of one call of \<^verbatim>\<open>process\<close>: the metrics of the orchestrator, the trace, the
  variable \<^verbatim>\<open>state\<close> and the outside world. \<open>calls_of\<close> is not a variable of the source: it
  logs the calls of the tool executor, so that theorems can speak about them.
\<close>

record 'w run =
  metrics_of :: metrics
  trace_of :: "jsval list"
  state_of :: string
  world_of :: 'w
  calls_of :: "(jsval \<times> jsval) list"

definition fdiv :: "num \<Rightarrow> num \<Rightarrow> num" where
  "fdiv x y = rnd (x / y)"

definition fmul :: "num \<Rightarrow> num \<Rightarrow> num" where
  "fmul x y = rnd (x * y)"

definition rate :: "'w env \<Rightarrow> nat \<Rightarrow> nat \<Rightarrow> string" where
  "rate env n tot = toFixed env 1 (fmul (fdiv (of_nat n) (of_nat (if tot = 0 then 1 else tot))) 100) @ ''%''"

definition snapshot_of :: "'w env \<Rightarrow> metrics \<Rightarrow> snapshot" where
  "snapshot_of env m = \<lparr> counters = m,
     deterministicRate = rate env (deterministicTasks m) (totalTasks m),
     modelFallbackRate = rate env (modelFallbacks m) (totalTasks m) \<rparr>"

definition trackIntent :: "metrics \<Rightarrow> string \<Rightarrow> metrics" where
  "trackIntent m i = m\<lparr> byIntent := (byIntent m)(i \<mapsto> (case byIntent m i of None \<Rightarrow> 0 | Some n \<Rightarrow> n) + 1) \<rparr>"

definition push_trace :: "(string \<times> jsval) list \<Rightarrow> 'w run \<Rightarrow> 'w run" where
  "push_trace entry r = r\<lparr> trace_of := trace_of r @ [JObj entry] \<rparr>"

definition set_state :: "string \<Rightarrow> 'w run \<Rightarrow> 'w run" where
  "set_state st r = r\<lparr> state_of := st \<rparr>"

definition update_metrics :: "(metrics \<Rightarrow> metrics) \<Rightarrow> 'w run \<Rightarrow> 'w run" where
  "update_metrics f r = r\<lparr> metrics_of := f (metrics_of r) \<rparr>"

definition make_result :: "'w env \<Rightarrow> 'w run \<Rightarrow> jsval \<Rightarrow> bool \<Rightarrow> result" where
  "make_result env r resp det = \<lparr> response = resp, r_metrics = snapshot_of env (metrics_of r),
     r_trace = trace_of r, deterministic = det, r_classification = None, r_results = None,
     r_error = None, modelUsed = False, modelUsedForPlanning = False \<rparr>"

text \<open>\<^verbatim>\<open>await this.executeTool(tool, args)\<close>.\<close>

definition call_tool :: "'w env \<Rightarrow> 'w run \<Rightarrow> jsval \<Rightarrow> jsval \<Rightarrow> 'w run \<times> (exn + jsval)" where
  "call_tool env r t a = (case executeTool env (world_of r) t a of
     (w', res) \<Rightarrow> (r\<lparr> world_of := w', calls_of := calls_of r @ [(t, a)] \<rparr>, res))"

text \<open>
  The entry of \<^verbatim>\<open>results\<close> that the \<^verbatim>\<open>try\<close> or the \<^verbatim>\<open>catch\<close> branch of the step loop pushes.
  The \<^verbatim>\<open>catch\<close> branch reads \<^verbatim>\<open>err.message\<close>, which throws when the value caught is \<^verbatim>\<open>null\<close> or
  \<^verbatim>\<open>undefined\<close>: then nothing is pushed and the \<^verbatim>\<open>TypeError\<close> leaves the loop.
\<close>

fun step_result :: "jsval \<Rightarrow> jsval \<Rightarrow> exn + jsval \<Rightarrow> exn + jsval" where
  "step_result t a (Inr v) =
     Inr (JObj [(''tool'', t), (''args'', a), (''result'', v), (''success'', JBool True)])"
| "step_result t a (Inl e) =
     (case get_prop e ''message'' of
        Inl te \<Rightarrow> Inl te
      | Inr msg \<Rightarrow> Inr (JObj [(''tool'', t), (''args'', a), (''error'', msg), (''success'', JBool False)]))"

text \<open>
  The loop of the EXECUTING stage over \<^verbatim>\<open>plan.steps\<close>: the results, or the exception that left
  the loop.
\<close>

fun execute_steps :: "'w env \<Rightarrow> 'w run \<Rightarrow> step list \<Rightarrow> 'w run \<times> (exn + jsval list)" where
  "execute_steps env r [] = (r, Inr [])"
| "execute_steps env r (s # ss) = (case call_tool env r (JStr (tool s)) (args s) of
     (r', res) \<Rightarrow> (case step_result (JStr (tool s)) (args s) res of
        Inl e \<Rightarrow> (r', Inl e)
      | Inr entry \<Rightarrow> (case execute_steps env r' ss of
           (r'', Inl e) \<Rightarrow> (r'', Inl e)
         | (r'', Inr rs) \<Rightarrow> (r'', Inr (entry # rs)))))"

text \<open>\<^verbatim>\<open>results[results.length - 1]\<close>.\<close>

definition last_result :: "jsval list \<Rightarrow> jsval" where
  "last_result rs = (if rs = [] then JUndefined else last rs)"

definition count_successes :: "jsval list \<Rightarrow> nat" where
  "count_successes rs = length (filter (\<lambda>r. truthy (get_field r ''success'')) rs)"

definition validator_for :: "'w env \<Rightarrow> string \<Rightarrow> (jsval \<Rightarrow> exn + jsval)" where
  "validator_for env i = (case VALIDATORS env i of Some v \<Rightarrow> v | None \<Rightarrow> VALIDATORS_default env)"

definition templates_for :: "'w env \<Rightarrow> string \<Rightarrow> templates" where
  "templates_for env i = (case RESPONSE_TEMPLATES env i of Some t \<Rightarrow> t | None \<Rightarrow> RESPONSE_TEMPLATES_default env)"

definition step_js :: "step \<Rightarrow> jsval" where
  "step_js s = JObj [(''tool'', JStr (tool s)), (''args'', args s)]"

definition plan_js :: "plan \<Rightarrow> jsval" where
  "plan_js p = JObj [(''intent'', JStr (p_intent p)), (''steps'', JArr (map step_js (steps p))),
     (''requiresModelForPlanning'', JBool (requiresModelForPlanning p))]"

text \<open>\<^verbatim>\<open>_modelFallback\<close>.\<close>

definition modelFallback :: "'w env \<Rightarrow> 'w run \<Rightarrow> string \<Rightarrow> classification \<Rightarrow> 'w run \<times> (exn + result)" where
  "modelFallback env r0 input c =
    (case update_metrics (\<lambda>m. m\<lparr> modelFallbacks := modelFallbacks m + 1 \<rparr>) r0 of r1 \<Rightarrow>
     (case model env of
        None \<Rightarrow> (r1, Inr (make_result env r1
          (JStr (''I couldn'' @ [CHR 0x27] @ ''t classify this task deterministically (confidence: ''
                 @ toFixed env 2 (confidence c) @ ''). ''
                 @ ''Enable a model provider (--provider ollama or --provider claude) for general-purpose tasks.''))
          False))
      | Some md \<Rightarrow>
         (case push_trace [(''state'', JStr ''model_fallback''), (''reason'', JStr ''classifier_no_match'')] r1 of r2 \<Rightarrow>
          (case processAgentLoop md (world_of r2) input of
             (w', Inl e) \<Rightarrow> (r2\<lparr> world_of := w' \<rparr>, Inl e)
           | (w', Inr res) \<Rightarrow>
              (case update_metrics (\<lambda>m. m\<lparr> modelCallsForResponse := modelCallsForResponse m + 1 \<rparr>)
                      (r2\<lparr> world_of := w' \<rparr>) of r3 \<Rightarrow>
               (case get_prop res ''response'' of
                  Inl e \<Rightarrow> (r3, Inl e)
                | Inr resp \<Rightarrow> (r3, Inr ((make_result env r3 (or_js resp res) False)\<lparr> modelUsed := True \<rparr>))))))))"

definition JSON_OBJECT_PATTERN :: regex where
  "JSON_OBJECT_PATTERN = seqs [Chr CHR ''{'', Rstar (Cls [CSpace, CNonSpace]), Chr CHR ''}'']"

definition system_prompt :: "'w env \<Rightarrow> classification \<Rightarrow> plan \<Rightarrow> string" where
  "system_prompt env c partialPlan =
     ''You are a task planner. Given the user'' @ [CHR 0x27] @ ''s request and a partial plan, fill in the missing details.''
     @ [CHR 0x0A] @ ''The task type is: '' @ intent c
     @ [CHR 0x0A] @ ''Available tools: '' @ join '', '' (tools c)
     @ [CHR 0x0A] @ ''Partial plan steps: '' @ json_stringify env (JArr (map step_js (steps partialPlan)))
     @ [CHR 0x0A, CHR 0x0A] @ ''Respond with ONLY a JSON object containing the complete plan:''
     @ [CHR 0x0A] @ ''{''
     @ [CHR 0x0A] @ ''  '' @ [CHR 0x22] @ ''steps'' @ [CHR 0x22] @ '': [''
     @ [CHR 0x0A] @ ''    { '' @ [CHR 0x22] @ ''tool'' @ [CHR 0x22] @ '': '' @ [CHR 0x22] @ ''tool_name'' @ [CHR 0x22]
       @ '', '' @ [CHR 0x22] @ ''args'' @ [CHR 0x22] @ '': { ... } }''
     @ [CHR 0x0A] @ ''  ]''
     @ [CHR 0x0A] @ ''}''"

text \<open>
  The \<^verbatim>\<open>catch\<close> block of \<^verbatim>\<open>_modelAssistPlan\<close>, followed by \<^verbatim>\<open>return partialPlan\<close>. Reading
  \<^verbatim>\<open>err.message\<close> throws when the value caught is \<^verbatim>\<open>null\<close> or \<^verbatim>\<open>undefined\<close>, and the call of
  the logger may throw.
\<close>

definition warn_failed :: "'w env \<Rightarrow> 'w run \<Rightarrow> exn \<Rightarrow> plan \<Rightarrow> 'w run \<times> (exn + jsval)" where
  "warn_failed env r e partialPlan =
     (case get_prop e ''message'' of
        Inl te \<Rightarrow> (r, Inl te)
      | Inr msg \<Rightarrow>
         (case logger_warn env (world_of r)
                 (''Model plan assist failed: '' @ to_string (num_to_string env) msg) of
            (w', Inl le) \<Rightarrow> (r\<lparr> world_of := w' \<rparr>, Inl le)
          | (w', Inr u) \<Rightarrow> (r\<lparr> world_of := w' \<rparr>, Inr (plan_js partialPlan))))"

text \<open>
  \<^verbatim>\<open>_modelAssistPlan\<close>, called with a model adapter \<open>md\<close>. Everything that throws inside its
  \<^verbatim>\<open>try\<close> block (the model call, \<^verbatim>\<open>response.match\<close> on a value that is not a string,
  \<^verbatim>\<open>JSON.parse\<close>) ends in the \<^verbatim>\<open>catch\<close> block.
\<close>

definition modelAssistPlan ::
  "'w env \<Rightarrow> 'w model_provider \<Rightarrow> 'w run \<Rightarrow> string \<Rightarrow> classification \<Rightarrow> plan
     \<Rightarrow> 'w run \<times> (exn + jsval)" where
  "modelAssistPlan env md r input c partialPlan =
    (case complete md (world_of r) (system_prompt env c partialPlan) input of
       (w', Inl e) \<Rightarrow> warn_failed env (r\<lparr> world_of := w' \<rparr>) e partialPlan
     | (w', Inr (JStr body)) \<Rightarrow>
         (case re_match False JSON_OBJECT_PATTERN body of
            None \<Rightarrow> (r\<lparr> world_of := w' \<rparr>, Inr (plan_js partialPlan))
          | Some m \<Rightarrow>
             (case json_parse env (fst m) of
                Inl e \<Rightarrow> warn_failed env (r\<lparr> world_of := w' \<rparr>) e partialPlan
              | Inr v \<Rightarrow> (r\<lparr> world_of := w' \<rparr>, Inr v)))
     | (w', Inr v) \<Rightarrow>
         warn_failed env (r\<lparr> world_of := w' \<rparr>)
           (if nullish v then type_error v ''match''
            else JError ''TypeError'' ''response.match is not a function'')
           partialPlan)"

text \<open>
  The step loop of \<^verbatim>\<open>_executeModelPlan\<close>. A step that is \<^verbatim>\<open>null\<close> throws when \<^verbatim>\<open>step.tool\<close> is
  read, in the \<^verbatim>\<open>try\<close> block and again in the \<^verbatim>\<open>catch\<close> block, which ends the loop; so does a
  value caught that is \<^verbatim>\<open>null\<close> or \<^verbatim>\<open>undefined\<close>, when \<^verbatim>\<open>err.message\<close> is read.
\<close>

fun execute_model_steps :: "'w env \<Rightarrow> 'w run \<Rightarrow> jsval list \<Rightarrow> 'w run \<times> (exn + jsval list)" where
  "execute_model_steps env r [] = (r, Inr [])"
| "execute_model_steps env r (s # ss) =
     (if nullish s then (r, Inl (type_error s ''tool''))
      else (case call_tool env r (get_field s ''tool'') (get_field s ''args'') of
        (r', res) \<Rightarrow> (case step_result (get_field s ''tool'') (get_field s ''args'') res of
           Inl e \<Rightarrow> (r', Inl e)
         | Inr entry \<Rightarrow> (case execute_model_steps env r' ss of
              (r'', Inl e) \<Rightarrow> (r'', Inl e)
            | (r'', Inr rs) \<Rightarrow> (r'', Inr (entry # rs))))))"

text \<open>\<^verbatim>\<open>_executeModelPlan\<close>.\<close>

definition executeModelPlan ::
  "'w env \<Rightarrow> 'w run \<Rightarrow> string \<Rightarrow> jsval \<Rightarrow> classification \<Rightarrow> 'w run \<times> (exn + result)" where
  "executeModelPlan env r input planv c =
    (case get_prop planv ''steps'' of
       Inl e \<Rightarrow> (r, Inl e)
     | Inr sv \<Rightarrow>
        (case iterate (not_iterable env) (or_js sv (JArr [])) of
           Inl e \<Rightarrow> (r, Inl e)
         | Inr ss \<Rightarrow>
            (case execute_model_steps env r ss of
               (r1, Inl e) \<Rightarrow> (r1, Inl e)
             | (r1, Inr rs) \<Rightarrow>
                (case push_trace [(''state'', JStr ''executing''), (''modelAssisted'', JBool True),
                                  (''steps'', JNum (of_nat (length rs)))] r1 of r2 \<Rightarrow>
                 (case (if truthy (opt_prop (last_result rs) ''success'')
                        then t_success (templates_for env (intent c))
                               (or_js (get_field (last_result rs) ''result'') (last_result rs)) planv
                        else t_error (templates_for env (intent c))
                               (or_js (last_result rs) (JObj [(''error'', JStr ''no results'')])) planv) of
                    Inl e \<Rightarrow> (r2, Inl e)
                  | Inr resp \<Rightarrow> (r2, Inr ((make_result env r2 resp False)
                       \<lparr> modelUsedForPlanning := True, r_results := Some rs \<rparr>)))))))"

text \<open>
  The stages VALIDATING and RESPONDING of \<^verbatim>\<open>process\<close>, after the step loop has produced
  \<open>rs\<close>.
\<close>

definition validate_respond ::
  "'w env \<Rightarrow> 'w run \<Rightarrow> classification \<Rightarrow> plan \<Rightarrow> jsval list \<Rightarrow> 'w run \<times> (exn + result)" where
  "validate_respond env r c p rs =
    (case set_state ''validating'' r of r1 \<Rightarrow>
     (case validator_for env (intent c) (or_js (opt_prop (last_result rs) ''result'') (last_result rs)) of
        Inl e \<Rightarrow> (r1, Inl e)
      | Inr validation \<Rightarrow>
         (case get_prop validation ''valid'' of
            Inl e \<Rightarrow> (r1, Inl e)
          | Inr valid \<Rightarrow>
             (case set_state ''responding''
                     (push_trace [(''state'', JStr ''validating''), (''valid'', valid),
                                  (''reason'', get_field validation ''reason'')] r1) of r2 \<Rightarrow>
              (case (if truthy valid
                     then t_success (templates_for env (intent c))
                            (or_js (opt_prop (last_result rs) ''result'') (last_result rs)) (plan_js p)
                     else t_error (templates_for env (intent c))
                            (spread2 (last_result rs) validation) (plan_js p)) of
                 Inl e \<Rightarrow> (r2, Inl e)
               | Inr resp \<Rightarrow>
                  (case update_metrics (\<lambda>m. m\<lparr> deterministicTasks := deterministicTasks m + 1 \<rparr>) r2 of r3 \<Rightarrow>
                   (r3, Inr ((make_result env r3 resp True)
                      \<lparr> r_classification := Some c, r_results := Some rs \<rparr>))))))))"

definition needs_planning_message :: "classification \<Rightarrow> string" where
  "needs_planning_message c =
     ''I identified this as a '' @ [CHR 0x22] @ intent c @ [CHR 0x22]
     @ '' task, but I need a model to complete the planning. ''
     @ ''Run with --provider ollama or --provider claude to enable model-assisted planning.''"

definition classifying_entry :: "classification \<Rightarrow> (string \<times> jsval) list" where
  "classifying_entry c = [(''state'', JStr ''classifying''), (''intent'', JStr (intent c)),
     (''confidence'', JNum (confidence c)), (''needsModel'', JBool (needsModel c)),
     (''reason'', JStr (reason c))]"

definition planning_entry :: "plan \<Rightarrow> (string \<times> jsval) list" where
  "planning_entry p = [(''state'', JStr ''planning''), (''steps'', JNum (of_nat (length (steps p)))),
     (''requiresModel'', JBool (requiresModelForPlanning p))]"

text \<open>The part of \<^verbatim>\<open>process\<close> from PLANNING on, reached unless the classifier found no match.\<close>

definition plan_and_run ::
  "'w env \<Rightarrow> 'w run \<Rightarrow> string \<Rightarrow> classification \<Rightarrow> plan \<Rightarrow> 'w run \<times> (exn + result)" where
  "plan_and_run env r input c p =
    (case push_trace (planning_entry p) (set_state ''planning'' r) of r1 \<Rightarrow>
     (if requiresModelForPlanning p then
        (case model env of
           None \<Rightarrow> (r1, Inr (make_result env r1 (JStr (needs_planning_message c)) False))
         | Some md \<Rightarrow>
            (case modelAssistPlan env md
                    (update_metrics (\<lambda>m. m\<lparr> modelCallsForPlanning := modelCallsForPlanning m + 1 \<rparr>) r1)
                    input c p of
               (r2, Inl e) \<Rightarrow> (r2, Inl e)
             | (r2, Inr modelPlan) \<Rightarrow>
                 (case get_prop modelPlan ''steps'' of
                    Inl e \<Rightarrow> (r2, Inl e)
                  | Inr sv \<Rightarrow>
                     executeModelPlan env
                       (push_trace [(''state'', JStr ''model_plan_assist''),
                                    (''modelSteps'', or_js (opt_prop sv ''length'') (JNum 0))] r2)
                       input modelPlan c)))
      else
        (case execute_steps env (set_state ''executing'' r1) (steps p) of
           (r2, Inl e) \<Rightarrow> (r2, Inl e)
         | (r2, Inr rs) \<Rightarrow>
             validate_respond env
               (push_trace [(''state'', JStr ''executing''), (''stepsExecuted'', JNum (of_nat (length rs))),
                            (''successes'', JNum (of_nat (count_successes rs)))] r2)
               c p rs)))"

text \<open>The \<^verbatim>\<open>try\<close> block of \<^verbatim>\<open>process\<close>.\<close>

definition process_try ::
  "'w env \<Rightarrow> config \<Rightarrow> 'w run \<Rightarrow> string \<Rightarrow> 'w run \<times> (exn + result)" where
  "process_try env cfg r input =
    (case classify input (confidenceThreshold cfg) of c \<Rightarrow>
     (case update_metrics (\<lambda>m. trackIntent m (intent c))
             (push_trace (classifying_entry c) (set_state ''classifying'' r)) of r1 \<Rightarrow>
      (if needsModel c \<and> reason c = ''no_pattern_match''
       then modelFallback env r1 input c
       else plan_and_run env r1 input c (planFromIntent c input))))"

text \<open>
  \<^verbatim>\<open>process\<close>: the orchestrator with the metrics \<open>m\<close>, in the world \<open>w\<close>. The result is what the
  call returns, or the exception it throws, with the metrics, the world and the executor calls
  after the call.
\<close>

record 'w outcome =
  returned :: "exn + result"
  metrics_after :: metrics
  world_after :: 'w
  tool_calls :: "(jsval \<times> jsval) list"

text \<open>
  The \<^verbatim>\<open>catch\<close> block of \<^verbatim>\<open>process\<close>. After the increment of \<^verbatim>\<open>errors\<close> it reads \<^verbatim>\<open>err.message\<close>,
  which throws when the value caught is \<^verbatim>\<open>null\<close> or \<^verbatim>\<open>undefined\<close>; that \<^verbatim>\<open>TypeError\<close> is the
  exception of the call.
\<close>

definition catch_all :: "'w env \<Rightarrow> 'w run \<Rightarrow> exn \<Rightarrow> 'w run \<times> (exn + result)" where
  "catch_all env r e =
    (case update_metrics (\<lambda>m. m\<lparr> errors := errors m + 1 \<rparr>) r of r1 \<Rightarrow>
     (case get_prop e ''message'' of
        Inl te \<Rightarrow> (r1, Inl te)
      | Inr msg \<Rightarrow>
         (r1, Inr ((make_result env r1
                      (JStr (''Error in '' @ state_of r1 @ '': '' @ to_string (num_to_string env) msg)) False)
                    \<lparr> r_error := Some msg \<rparr>))))"

definition finish :: "'w run \<Rightarrow> exn + result \<Rightarrow> 'w outcome" where
  "finish r res = \<lparr> returned = res, metrics_after = metrics_of r, world_after = world_of r,
     tool_calls = calls_of r \<rparr>"

definition initial_run :: "metrics \<Rightarrow> 'w \<Rightarrow> 'w run" where
  "initial_run m w = \<lparr> metrics_of = m\<lparr> totalTasks := totalTasks m + 1 \<rparr>, trace_of = [],
     state_of = ''init'', world_of = w, calls_of = [] \<rparr>"

definition process :: "'w env \<Rightarrow> config \<Rightarrow> metrics \<Rightarrow> 'w \<Rightarrow> string \<Rightarrow> 'w outcome" where
  "process env cfg m w input =
    (case process_try env cfg (initial_run m w) input of
       (r, Inr res) \<Rightarrow> finish r (Inr res)
     | (r, Inl e) \<Rightarrow> (case catch_all env r e of (r1, res) \<Rightarrow> finish r1 res))"

text \<open>
  The call of the executor that a step of a plan stands for, and the world after the calls for
  a list of steps, made one after the other.
\<close>

definition call_of :: "step \<Rightarrow> jsval \<times> jsval" where
  "call_of s = (JStr (tool s), args s)"

fun world_after_steps :: "'w env \<Rightarrow> 'w \<Rightarrow> step list \<Rightarrow> 'w" where
  "world_after_steps env w [] = w"
| "world_after_steps env w (s # ss) =
     world_after_steps env (fst (executeTool env w (JStr (tool s)) (args s))) ss"

text \<open>
  What the executor returns or throws for step \<open>i\<close> of the steps \<open>ss\<close>, when the calls for the
  steps before it have been made from the world \<open>w\<close>, and the entry of \<^verbatim>\<open>results\<close> that stands
  for it.
\<close>

definition outcome_of_step :: "'w env \<Rightarrow> 'w \<Rightarrow> step list \<Rightarrow> nat \<Rightarrow> exn + jsval" where
  "outcome_of_step env w ss i =
     snd (executeTool env (world_after_steps env w (take i ss)) (JStr (tool (ss ! i))) (args (ss ! i)))"

definition expected_result :: "'w env \<Rightarrow> 'w \<Rightarrow> step list \<Rightarrow> nat \<Rightarrow> jsval" where
  "expected_result env w ss i =
     (case outcome_of_step env w ss i of
        Inr v \<Rightarrow> JObj [(''tool'', JStr (tool (ss ! i))), (''args'', args (ss ! i)), (''result'', v),
                        (''success'', JBool True)]
      | Inl e \<Rightarrow> JObj [(''tool'', JStr (tool (ss ! i))), (''args'', args (ss ! i)),
                        (''error'', get_field e ''message''), (''success'', JBool False)])"

text \<open>
  Whether the executor throws \<^verbatim>\<open>null\<close> or \<^verbatim>\<open>undefined\<close> for step \<open>i\<close>, and the first step of
  \<open>ss\<close> for which it does, if there is one.
\<close>

definition throws_nullish :: "'w env \<Rightarrow> 'w \<Rightarrow> step list \<Rightarrow> nat \<Rightarrow> bool" where
  "throws_nullish env w ss i = (case outcome_of_step env w ss i of Inl e \<Rightarrow> nullish e | Inr v \<Rightarrow> False)"

definition aborting_step :: "'w env \<Rightarrow> 'w \<Rightarrow> step list \<Rightarrow> nat option" where
  "aborting_step env w ss = List.find (throws_nullish env w ss) [0..<length ss]"


section \<open>Sample collaborators\<close>

text \<open>
  Collaborators for the examples. The world of the sample executor is the number of calls made
  so far; for a tool named in \<open>bad\<close> it throws the value given there, and it returns the number
  of earlier calls otherwise. The sample default validator is the \<^verbatim>\<open>default\<close> entry of
  \<^verbatim>\<open>VALIDATORS\<close>.
\<close>

definition sample_executor :: "(string \<times> jsval) list \<Rightarrow> nat \<Rightarrow> jsval \<Rightarrow> jsval \<Rightarrow> nat \<times> (exn + jsval)" where
  "sample_executor bad w t a =
     (Suc w, case t of
               JStr n \<Rightarrow> (case map_of bad n of Some e \<Rightarrow> Inl e | None \<Rightarrow> Inr (JNum (of_nat w)))
             | _ \<Rightarrow> Inr (JNum (of_nat w)))"

definition default_validator :: "jsval \<Rightarrow> exn + jsval" where
  "default_validator v =
     (if \<not> truthy v \<or> truthy (get_field v ''error'')
      then Inr (JObj [(''valid'', JBool False),
                      (''reason'', or_js (opt_prop v ''error'') (JStr ''unknown_error''))])
      else Inr (JObj [(''valid'', JBool True)]))"

definition sample_templates :: templates where
  "sample_templates = \<lparr> t_success = (\<lambda>r p. Inr (JStr ''Task completed successfully.'')),
                          t_error = (\<lambda>r p. Inr (JStr ''Task failed'')) \<rparr>"

definition sample_env :: "(string \<times> jsval) list \<Rightarrow> nat model_provider option \<Rightarrow> nat env" where
  "sample_env bad md = \<lparr> executeTool = sample_executor bad, model = md,
     logger_warn = (\<lambda>w s. (w, Inr ())), json_parse = (\<lambda>s. Inl (JError ''SyntaxError'' ''Unexpected token'')),
     json_stringify = (\<lambda>v. ''[]''), toFixed = (\<lambda>n x. ''0''), num_to_string = (\<lambda>x. ''0''),
     not_iterable = (\<lambda>v. ''value is not iterable''),
     VALIDATORS = Map.empty, VALIDATORS_default = default_validator,
     RESPONSE_TEMPLATES = Map.empty, RESPONSE_TEMPLATES_default = sample_templates \<rparr>"



section \<open>The score in closed form\<close>

text \<open>
  \<open>add_times n x s\<close> is \<open>s\<close> after \<open>n\<close> additions \<^verbatim>\<open>score += x\<close>. \<open>matching_patterns\<close> and
  \<open>matching_keywords\<close> count the patterns and the keywords of a task type that the input
  matches; \<open>base_score\<close> is the score the two inner loops leave. \<open>boost_count\<close> counts the
  entity-based \<^verbatim>\<open>if\<close> statements of the scorer that fire for a task type.
\<close>

fun add_times :: "nat \<Rightarrow> num \<Rightarrow> num \<Rightarrow> num" where
  "add_times 0 x s = s"
| "add_times (Suc n) x s = add_times n x (fadd s x)"

definition matching_patterns :: "string \<Rightarrow> task_type \<Rightarrow> nat" where
  "matching_patterns input t = length (filter (\<lambda>p. re_test True p input) (tt_patterns t))"

definition matching_keywords :: "string \<Rightarrow> task_type \<Rightarrow> nat" where
  "matching_keywords input t =
     length (filter (\<lambda>k. str_includes (toLowerCase input) (toLowerCase k)) (tt_keywords t))"

definition base_score :: "string \<Rightarrow> task_type \<Rightarrow> num" where
  "base_score input t =
     add_times (matching_keywords input t) (lit (1 / 10)) (add_times (matching_patterns input t) (lit (3 / 10)) 0)"

definition boost_count :: "entities \<Rightarrow> task_type \<Rightarrow> nat" where
  "boost_count e t =
     (if filePaths e \<noteq> [] \<and> tt_id t \<in> set [''file_read'', ''file_write'', ''file_edit'', ''code_analysis'']
      then 1 else 0)
   + (if urls e \<noteq> [] \<and> tt_id t = ''http_request'' then 1 else 0)
   + (if gitOps e \<noteq> [] \<and> tt_id t = ''shell_command'' then 1 else 0)
   + (if packages e \<noteq> [] \<and> tt_id t = ''shell_command'' then 1 else 0)"

text \<open>
  The confidence as the specification words it: the boost of a task type is added one time when
  the type is relevant to a populated entity category.
\<close>

definition spec_relevant :: "entities \<Rightarrow> task_type \<Rightarrow> bool" where
  "spec_relevant e t =
     ((filePaths e \<noteq> [] \<and> tt_id t \<in> set [''file_read'', ''file_write'', ''file_edit'', ''code_analysis''])
    \<or> (urls e \<noteq> [] \<and> tt_id t = ''http_request'')
    \<or> ((gitOps e \<noteq> [] \<or> packages e \<noteq> []) \<and> tt_id t = ''shell_command''))"

definition spec_confidence :: "string \<Rightarrow> task_type \<Rightarrow> num" where
  "spec_confidence input t =
     min (if spec_relevant (extractEntities input) t
          then fadd (base_score input t) (confidence_boost t) else base_score input t) 1"


section \<open>Rounding\<close>

lemma pow2_powi: "pow2 e = 2 powi e"
  by (simp add: pow2_def power_int_def inverse_eq_divide power_one_over)

lemma pow2_pos: "0 < pow2 e"
  by (simp add: pow2_powi)

lemma pow2_add: "pow2 (a + b) = pow2 a * pow2 b"
  by (simp add: pow2_powi power_int_add)

lemma pow2_mono: "a \<le> b \<Longrightarrow> pow2 a \<le> pow2 b"
  by (simp add: pow2_powi power_int_increasing)

lemma pow2_less_iff: "pow2 a < pow2 b \<longleftrightarrow> a < b"
proof
  assume l: "pow2 a < pow2 b"
  show "a < b"
  proof (rule ccontr)
    assume "\<not> a < b"
    then have "pow2 b \<le> pow2 a" by (intro pow2_mono) simp
    with l show False by simp
  qed
next
  assume "a < b"
  then show "pow2 a < pow2 b" by (simp add: pow2_powi power_int_strict_increasing)
qed

lemma pow2_nat: "0 \<le> e \<Longrightarrow> pow2 e = 2 ^ nat e"
  by (simp add: pow2_def)

lemma ilog2_bounds:
  assumes "0 < x"
  shows "pow2 (ilog2 x) \<le> x \<and> x < pow2 (ilog2 x + 1)"
proof (cases "1 \<le> x")
  case True
  define n where "n = \<lfloor>x\<rfloor>"
  have n1: "1 \<le> n" using True by (simp add: n_def)
  have bl: "2 ^ nat (bitlen n - 1) \<le> n \<and> n < 2 ^ nat (bitlen n)"
    using bitlen_bounds[of n] n1 by simp
  have blpos: "1 \<le> bitlen n" using n1 by (simp add: bitlen_alt_def)
  have e: "ilog2 x = bitlen n - 1" using True by (simp add: ilog2_def n_def)
  have "pow2 (bitlen n - 1) = 2 ^ nat (bitlen n - 1)" using blpos by (simp add: pow2_def)
  also have "\<dots> \<le> of_int n" using bl by (metis of_int_le_iff of_int_numeral of_int_power)
  also have "\<dots> \<le> x" by (simp add: n_def)
  finally have lo: "pow2 (ilog2 x) \<le> x" by (simp add: e)
  have "x < of_int (n + 1)" unfolding n_def by linarith
  also have "\<dots> \<le> of_int (2 ^ nat (bitlen n))" using bl by (metis of_int_le_iff zless_imp_add1_zle)
  also have "\<dots> = pow2 (bitlen n)" using blpos by (simp add: pow2_def)
  finally have "x < pow2 (ilog2 x + 1)" by (simp add: e)
  with lo show ?thesis by simp
next
  case False
  define y where "y = 1 / x"
  define n where "n = \<lfloor>y\<rfloor>"
  define L where "L = bitlen n"
  have y1: "1 < y" using False assms by (simp add: y_def)
  have n1: "1 \<le> n" using y1 by (simp add: n_def)
  have bl: "2 ^ nat (L - 1) \<le> n \<and> n < 2 ^ nat L"
    using bitlen_bounds[of n] n1 by (simp add: L_def)
  have Lpos: "1 \<le> L" using n1 by (simp add: bitlen_alt_def L_def)
  have ylo: "2 ^ nat (L - 1) \<le> y"
  proof -
    have "(2::real) ^ nat (L - 1) \<le> of_int n" using bl by (metis of_int_le_iff of_int_numeral of_int_power)
    also have "\<dots> \<le> y" by (simp add: n_def)
    finally show ?thesis .
  qed
  have yhi: "y < 2 ^ nat L"
  proof -
    have "y < of_int (n + 1)" unfolding n_def by linarith
    also have "\<dots> \<le> of_int (2 ^ nat L)" using bl by (metis of_int_le_iff zless_imp_add1_zle)
    finally show ?thesis by simp
  qed
  have x_eq: "x = 1 / y" using assms by (simp add: y_def)
  have p0: "pow2 (- L) = 1 / 2 ^ nat L" using Lpos by (simp add: pow2_def)
  have p1: "pow2 (- L + 1) = 1 / 2 ^ nat (L - 1)"
  proof (cases "L = 1")
    case True then show ?thesis by (simp add: pow2_def)
  next
    case False
    then have "- L + 1 < 0" using Lpos by simp
    then show ?thesis by (simp add: pow2_def)
  qed
  have lo0: "pow2 (- L) < x"
    unfolding p0 x_eq using yhi y1 by (simp add: frac_less2)
  have hi1: "x \<le> pow2 (- L + 1)"
    unfolding p1 x_eq using ylo y1 by (simp add: frac_le)
  have e: "ilog2 x = ilog2_small x (- L)" using False by (simp add: ilog2_def L_def n_def y_def)
  show ?thesis
  proof (cases "pow2 (- L + 1) \<le> x")
    case True
    then have "ilog2 x = - L + 1" by (simp add: e ilog2_small_def)
    moreover have "x < pow2 (- L + 1 + 1)" using hi1 pow2_less_iff[of "- L + 1" "- L + 1 + 1"] by simp
    ultimately show ?thesis using True by simp
  next
    case False
    then have "ilog2 x = - L" by (simp add: e ilog2_small_def)
    then show ?thesis using False lo0 by simp
  qed
qed

lemma round_even_ge: "of_int n \<le> q \<Longrightarrow> n \<le> round_even q"
proof -
  assume "of_int n \<le> q"
  then have "n \<le> \<lfloor>q\<rfloor>" by (simp add: le_floor_iff)
  moreover have "\<lfloor>q\<rfloor> \<le> round_even q" by (simp add: round_even_def round_from_def)
  ultimately show ?thesis by simp
qed

lemma rnd_ge_grid:
  assumes "0 < x" and "of_int n * pow2 (ilog2 x - 52) \<le> x"
  shows "of_int n * pow2 (ilog2 x - 52) \<le> rnd x"
proof -
  define u where "u = pow2 (ilog2 x - 52)"
  have u: "0 < u" by (simp add: u_def pow2_pos)
  have "of_int n \<le> x / u" using assms(2) u by (simp add: u_def pos_le_divide_eq)
  then have "n \<le> round_even (x / u)" by (rule round_even_ge)
  then have "of_int n * u \<le> of_int (round_even (x / u)) * u" using u by simp
  moreover have "rnd x = of_int (round_even (x / u)) * u"
    using assms(1) by (simp add: rnd_def round_to_def u_def)
  ultimately show ?thesis by (simp add: u_def)
qed

lemma rnd_ge_pow2:
  assumes "0 < x"
  shows "pow2 (ilog2 x) \<le> rnd x"
proof -
  have eq: "of_int (2 ^ 52) * pow2 (ilog2 x - 52) = pow2 (ilog2 x)"
    using pow2_add[of 52 "ilog2 x - 52"] by (simp add: pow2_def)
  have "of_int (2 ^ 52) * pow2 (ilog2 x - 52) \<le> rnd x"
    using assms ilog2_bounds[OF assms] eq by (intro rnd_ge_grid) simp_all
  then show ?thesis using eq by simp
qed

lemma rnd_pos: "0 < x \<Longrightarrow> 0 < rnd x"
  using rnd_ge_pow2[of x] pow2_pos[of "ilog2 x"] by linarith

lemma rnd_minus: "rnd (- x) = - rnd x"
  by (simp add: rnd_def)

lemma rnd_zero: "rnd 0 = 0"
  by (simp add: rnd_def)

lemma rnd_le_zero_iff: "rnd x \<le> 0 \<longleftrightarrow> x \<le> 0"
proof (cases "0 < x")
  case True then show ?thesis using rnd_pos[of x] by simp
next
  case False
  then have "x = 0 \<or> 0 < - x" by auto
  then show ?thesis using rnd_pos[of "- x"] False by (auto simp: rnd_minus rnd_zero)
qed

lemma rnd_nonneg: "0 \<le> x \<Longrightarrow> 0 \<le> rnd x"
  using rnd_pos[of x] by (cases "x = 0") (auto simp: rnd_zero)

text \<open>Rounding never goes below a double that the argument has reached.\<close>

lemma rnd_ge_double:
  assumes b: "b = of_int m * pow2 (k - 52)" and m: "2 ^ 52 \<le> m" "m < 2 ^ 53" and bx: "b \<le> x"
  shows "b \<le> rnd x"
proof -
  have k52: "pow2 k = of_int (2 ^ 52) * pow2 (k - 52)"
    using pow2_add[of 52 "k - 52"] by (simp add: pow2_def)
  have k53: "pow2 (k + 1) = of_int (2 ^ 53) * pow2 (k - 52)"
  proof -
    have "pow2 (53 + (k - 52)) = pow2 53 * pow2 (k - 52)" by (rule pow2_add)
    moreover have "pow2 53 = of_int (2 ^ 53)" by (simp add: pow2_def)
    moreover have "53 + (k - 52) = k + 1" by simp
    ultimately show ?thesis by simp
  qed
  have blo: "pow2 k \<le> b" unfolding b k52 using m(1) pow2_pos[of "k - 52"] by (simp del: of_int_power)
  have bhi: "b < pow2 (k + 1)" unfolding b k53 using m(2) pow2_pos[of "k - 52"] by (simp del: of_int_power)
  have xpos: "0 < x" using blo bx pow2_pos[of k] by linarith
  have "pow2 k < pow2 (ilog2 x + 1)" using blo bx ilog2_bounds[OF xpos] by linarith
  then have ke: "k \<le> ilog2 x" by (simp add: pow2_less_iff)
  show ?thesis
  proof (cases "ilog2 x = k")
    case True
    then show ?thesis using rnd_ge_grid[OF xpos, of m] bx b by simp
  next
    case False
    then have "k + 1 \<le> ilog2 x" using ke by simp
    then have "pow2 (k + 1) \<le> pow2 (ilog2 x)" by (rule pow2_mono)
    then show ?thesis using bhi rnd_ge_pow2[OF xpos] by linarith
  qed
qed

lemmas num_eval = lit_def fadd_def fsub_def rnd_def round_to_def round_even_def round_from_def ilog2_def
  ilog2_small_def pow2_def compute_bitlen


section \<open>Properties of the scorer\<close>

lemma pattern_loop_closed:
  "pattern_loop input ps (s, mp, mk) =
     (add_times (length (filter (\<lambda>p. re_test True p input) ps)) (lit (3 / 10)) s,
      mp + length (filter (\<lambda>p. re_test True p input) ps), mk)"
  by (induction ps arbitrary: s mp) simp_all

lemma keyword_loop_closed:
  "keyword_loop lower ks (s, mp, mk) =
     (add_times (length (filter (\<lambda>k. str_includes lower (toLowerCase k)) ks)) (lit (1 / 10)) s,
      mp, mk + length (filter (\<lambda>k. str_includes lower (toLowerCase k)) ks))"
  by (induction ks arbitrary: s mk) simp_all

lemma entity_boost_closed:
  "entity_boost e t s = add_times (boost_count e t) (confidence_boost t) s"
  by (auto simp: entity_boost_def boost_if_def boost_count_def)

lemma score_type_closed:
  "score_type input (toLowerCase input) e t =
     emit e t (min (add_times (boost_count e t) (confidence_boost t) (base_score input t)) 1)
       (matching_patterns input t) (matching_keywords input t)"
  by (simp add: score_type_def pattern_loop_closed keyword_loop_closed entity_boost_closed
      base_score_def matching_patterns_def matching_keywords_def)

lemma lit_nonneg: "0 \<le> x \<Longrightarrow> 0 \<le> lit x"
  by (simp add: lit_def rnd_nonneg)

lemma fadd_nonneg: "0 \<le> x \<Longrightarrow> 0 \<le> y \<Longrightarrow> 0 \<le> fadd x y"
  by (simp add: fadd_def rnd_nonneg)

lemma add_times_nonneg: "0 \<le> s \<Longrightarrow> 0 \<le> x \<Longrightarrow> 0 \<le> add_times n x s"
  by (induction n arbitrary: s) (simp_all add: fadd_nonneg)

lemma base_score_nonneg: "0 \<le> base_score input t"
  by (simp add: base_score_def add_times_nonneg lit_nonneg)

lemma lit_01: "lit (1 / 10) = of_int 7205759403792794 * pow2 (- 4 - 52)"
  by (simp add: num_eval)

lemma lit_02: "lit (2 / 10) = of_int 7205759403792794 * pow2 (- 3 - 52)"
  by (simp add: num_eval)

lemma fadd_ge_01: "0 \<le> s \<Longrightarrow> lit (1 / 10) \<le> fadd s (lit (1 / 10))"
  unfolding fadd_def by (rule rnd_ge_double[OF lit_01]) simp_all

lemma fadd_ge_02: "0 \<le> s \<Longrightarrow> lit (2 / 10) \<le> fadd s (lit (2 / 10))"
  unfolding fadd_def by (rule rnd_ge_double[OF lit_02]) simp_all

lemma lit_01_bounds: "0 < lit (1 / 10)" "lit (1 / 10) \<le> 1"
  by (simp_all add: num_eval)

lemma lit_02_bounds: "0 < lit (2 / 10)" "lit (2 / 10) \<le> 1"
  by (simp_all add: num_eval)

subsection \<open>The sort\<close>

lemma compare_scores_le: "compare_scores a b \<le> 0 \<longleftrightarrow> c_confidence b \<le> c_confidence a"
  by (simp add: compare_scores_def fsub_def rnd_le_zero_iff)

lemma set_insert_score: "set (insert_score a bs) = insert a (set bs)"
  by (induction bs) auto

lemma set_sort_scores: "set (sort_scores xs) = set xs"
  by (induction xs) (simp_all add: set_insert_score)

lemma sorted_insert_score:
  "sorted_wrt (\<lambda>a b. c_confidence b \<le> c_confidence a) bs \<Longrightarrow>
   sorted_wrt (\<lambda>a b. c_confidence b \<le> c_confidence a) (insert_score a bs)"
  by (induction bs) (auto simp: compare_scores_le set_insert_score)

lemma sorted_sort_scores: "sorted_wrt (\<lambda>a b. c_confidence b \<le> c_confidence a) (sort_scores xs)"
  by (induction xs) (simp_all add: sorted_insert_score)

lemma filter_insert_score:
  "filter (\<lambda>c. c_confidence c = k) (insert_score a bs) =
     (if c_confidence a = k then a # filter (\<lambda>c. c_confidence c = k) bs
      else filter (\<lambda>c. c_confidence c = k) bs)"
  by (induction bs) (auto simp: compare_scores_le)

lemma filter_sort_scores:
  "filter (\<lambda>c. c_confidence c = k) (sort_scores xs) = filter (\<lambda>c. c_confidence c = k) xs"
  by (induction xs) (simp_all add: filter_insert_score)

lemma length_insert_score: "length (insert_score a bs) = Suc (length bs)"
  by (induction bs) simp_all

lemma length_sort_scores: "length (sort_scores xs) = length xs"
  by (induction xs) (simp_all add: length_insert_score)

lemma score_all_concat:
  "score_all input lower e ts = concat (map (score_type input lower e) ts)"
  by (induction ts) simp_all

lemma score_type_ids: "c \<in> set (score_type input lower e t) \<Longrightarrow> taskType c = tt_id t"
  by (cases "keyword_loop lower (tt_keywords t) (pattern_loop input (tt_patterns t) (0, 0, 0))")
     (auto simp: score_type_def emit_def split: if_splits)

lemma score_type_short: "length (score_type input lower e t) \<le> 1"
  by (cases "keyword_loop lower (tt_keywords t) (pattern_loop input (tt_patterns t) (0, 0, 0))")
     (auto simp: score_type_def emit_def)

lemma score_all_subseq: "subseq (map taskType (score_all input lower e ts)) (map tt_id ts)"
proof (induction ts)
  case Nil
  then show ?case by simp
next
  case (Cons t ts)
  show ?case
  proof (cases "score_type input lower e t")
    case Nil
    then show ?thesis using Cons by (simp add: list_emb_Cons)
  next
    case (Cons c cs)
    then have "cs = []" using score_type_short[of input lower e t] by simp
    moreover have "taskType c = tt_id t" using Cons score_type_ids[of c input lower e t] by simp
    ultimately show ?thesis using Cons Cons.IH by simp
  qed
qed


section \<open>Evaluation on concrete inputs\<close>

text \<open>
  The character functions on the characters of the inputs and of the patterns, proved once and
  used as rewrite rules when a match is computed.
\<close>

lemmas char_eval = is_word_char_def is_upper_ascii_def is_lower_ascii_def is_digit_def is_space_def
  is_line_terminator_def toUpperChar_def toLowerChar_def

lemma word_memo:
  "is_word_char CHR ''a''"
  "is_word_char CHR ''b''"
  "is_word_char CHR ''c''"
  "is_word_char CHR ''d''"
  "is_word_char CHR ''e''"
  "is_word_char CHR ''f''"
  "is_word_char CHR ''g''"
  "is_word_char CHR ''h''"
  "is_word_char CHR ''i''"
  "is_word_char CHR ''j''"
  "is_word_char CHR ''k''"
  "is_word_char CHR ''l''"
  "is_word_char CHR ''m''"
  "is_word_char CHR ''n''"
  "is_word_char CHR ''o''"
  "is_word_char CHR ''p''"
  "is_word_char CHR ''q''"
  "is_word_char CHR ''r''"
  "is_word_char CHR ''s''"
  "is_word_char CHR ''t''"
  "is_word_char CHR ''u''"
  "is_word_char CHR ''v''"
  "is_word_char CHR ''w''"
  "is_word_char CHR ''x''"
  "is_word_char CHR ''y''"
  "is_word_char CHR ''z''"
  "is_word_char CHR ''A''"
  "is_word_char CHR ''B''"
  "is_word_char CHR ''C''"
  "is_word_char CHR ''D''"
  "is_word_char CHR ''E''"
  "is_word_char CHR ''F''"
  "is_word_char CHR ''G''"
  "is_word_char CHR ''H''"
  "is_word_char CHR ''I''"
  "is_word_char CHR ''J''"
  "is_word_char CHR ''K''"
  "is_word_char CHR ''L''"
  "is_word_char CHR ''M''"
  "is_word_char CHR ''N''"
  "is_word_char CHR ''O''"
  "is_word_char CHR ''P''"
  "is_word_char CHR ''Q''"
  "is_word_char CHR ''R''"
  "is_word_char CHR ''S''"
  "is_word_char CHR ''T''"
  "is_word_char CHR ''U''"
  "is_word_char CHR ''V''"
  "is_word_char CHR ''W''"
  "is_word_char CHR ''X''"
  "is_word_char CHR ''Y''"
  "is_word_char CHR ''Z''"
  "\<not> is_word_char CHR '' ''"
  "\<not> is_word_char CHR ''.''"
  "\<not> is_word_char CHR ''/''"
  "\<not> is_word_char CHR ''-''"
  "\<not> is_word_char CHR ''&''"
  "\<not> is_word_char CHR '':''"
  "is_word_char CHR ''_''"
  "\<not> is_word_char CHR ''@''"
  "\<not> is_word_char (CHR 0x27)"
  "\<not> is_word_char (CHR 0x22)"
  by (simp_all add: char_eval)

lemma space_memo:
  "\<not> is_space CHR ''a''"
  "\<not> is_space CHR ''b''"
  "\<not> is_space CHR ''c''"
  "\<not> is_space CHR ''d''"
  "\<not> is_space CHR ''e''"
  "\<not> is_space CHR ''f''"
  "\<not> is_space CHR ''g''"
  "\<not> is_space CHR ''h''"
  "\<not> is_space CHR ''i''"
  "\<not> is_space CHR ''j''"
  "\<not> is_space CHR ''k''"
  "\<not> is_space CHR ''l''"
  "\<not> is_space CHR ''m''"
  "\<not> is_space CHR ''n''"
  "\<not> is_space CHR ''o''"
  "\<not> is_space CHR ''p''"
  "\<not> is_space CHR ''q''"
  "\<not> is_space CHR ''r''"
  "\<not> is_space CHR ''s''"
  "\<not> is_space CHR ''t''"
  "\<not> is_space CHR ''u''"
  "\<not> is_space CHR ''v''"
  "\<not> is_space CHR ''w''"
  "\<not> is_space CHR ''x''"
  "\<not> is_space CHR ''y''"
  "\<not> is_space CHR ''z''"
  "\<not> is_space CHR ''A''"
  "\<not> is_space CHR ''B''"
  "\<not> is_space CHR ''C''"
  "\<not> is_space CHR ''D''"
  "\<not> is_space CHR ''E''"
  "\<not> is_space CHR ''F''"
  "\<not> is_space CHR ''G''"
  "\<not> is_space CHR ''H''"
  "\<not> is_space CHR ''I''"
  "\<not> is_space CHR ''J''"
  "\<not> is_space CHR ''K''"
  "\<not> is_space CHR ''L''"
  "\<not> is_space CHR ''M''"
  "\<not> is_space CHR ''N''"
  "\<not> is_space CHR ''O''"
  "\<not> is_space CHR ''P''"
  "\<not> is_space CHR ''Q''"
  "\<not> is_space CHR ''R''"
  "\<not> is_space CHR ''S''"
  "\<not> is_space CHR ''T''"
  "\<not> is_space CHR ''U''"
  "\<not> is_space CHR ''V''"
  "\<not> is_space CHR ''W''"
  "\<not> is_space CHR ''X''"
  "\<not> is_space CHR ''Y''"
  "\<not> is_space CHR ''Z''"
  "is_space CHR '' ''"
  "\<not> is_space CHR ''.''"
  "\<not> is_space CHR ''/''"
  "\<not> is_space CHR ''-''"
  "\<not> is_space CHR ''&''"
  "\<not> is_space CHR '':''"
  "\<not> is_space CHR ''_''"
  "\<not> is_space CHR ''@''"
  "\<not> is_space (CHR 0x27)"
  "\<not> is_space (CHR 0x22)"
  by (simp_all add: char_eval)

lemma lt_memo:
  "\<not> is_line_terminator CHR ''a''"
  "\<not> is_line_terminator CHR ''b''"
  "\<not> is_line_terminator CHR ''c''"
  "\<not> is_line_terminator CHR ''d''"
  "\<not> is_line_terminator CHR ''e''"
  "\<not> is_line_terminator CHR ''f''"
  "\<not> is_line_terminator CHR ''g''"
  "\<not> is_line_terminator CHR ''h''"
  "\<not> is_line_terminator CHR ''i''"
  "\<not> is_line_terminator CHR ''j''"
  "\<not> is_line_terminator CHR ''k''"
  "\<not> is_line_terminator CHR ''l''"
  "\<not> is_line_terminator CHR ''m''"
  "\<not> is_line_terminator CHR ''n''"
  "\<not> is_line_terminator CHR ''o''"
  "\<not> is_line_terminator CHR ''p''"
  "\<not> is_line_terminator CHR ''q''"
  "\<not> is_line_terminator CHR ''r''"
  "\<not> is_line_terminator CHR ''s''"
  "\<not> is_line_terminator CHR ''t''"
  "\<not> is_line_terminator CHR ''u''"
  "\<not> is_line_terminator CHR ''v''"
  "\<not> is_line_terminator CHR ''w''"
  "\<not> is_line_terminator CHR ''x''"
  "\<not> is_line_terminator CHR ''y''"
  "\<not> is_line_terminator CHR ''z''"
  "\<not> is_line_terminator CHR ''A''"
  "\<not> is_line_terminator CHR ''B''"
  "\<not> is_line_terminator CHR ''C''"
  "\<not> is_line_terminator CHR ''D''"
  "\<not> is_line_terminator CHR ''E''"
  "\<not> is_line_terminator CHR ''F''"
  "\<not> is_line_terminator CHR ''G''"
  "\<not> is_line_terminator CHR ''H''"
  "\<not> is_line_terminator CHR ''I''"
  "\<not> is_line_terminator CHR ''J''"
  "\<not> is_line_terminator CHR ''K''"
  "\<not> is_line_terminator CHR ''L''"
  "\<not> is_line_terminator CHR ''M''"
  "\<not> is_line_terminator CHR ''N''"
  "\<not> is_line_terminator CHR ''O''"
  "\<not> is_line_terminator CHR ''P''"
  "\<not> is_line_terminator CHR ''Q''"
  "\<not> is_line_terminator CHR ''R''"
  "\<not> is_line_terminator CHR ''S''"
  "\<not> is_line_terminator CHR ''T''"
  "\<not> is_line_terminator CHR ''U''"
  "\<not> is_line_terminator CHR ''V''"
  "\<not> is_line_terminator CHR ''W''"
  "\<not> is_line_terminator CHR ''X''"
  "\<not> is_line_terminator CHR ''Y''"
  "\<not> is_line_terminator CHR ''Z''"
  "\<not> is_line_terminator CHR '' ''"
  "\<not> is_line_terminator CHR ''.''"
  "\<not> is_line_terminator CHR ''/''"
  "\<not> is_line_terminator CHR ''-''"
  "\<not> is_line_terminator CHR ''&''"
  "\<not> is_line_terminator CHR '':''"
  "\<not> is_line_terminator CHR ''_''"
  "\<not> is_line_terminator CHR ''@''"
  "\<not> is_line_terminator (CHR 0x27)"
  "\<not> is_line_terminator (CHR 0x22)"
  by (simp_all add: char_eval)

lemma upper_memo:
  "toUpperChar CHR ''a'' = CHR ''A''"
  "toUpperChar CHR ''b'' = CHR ''B''"
  "toUpperChar CHR ''c'' = CHR ''C''"
  "toUpperChar CHR ''d'' = CHR ''D''"
  "toUpperChar CHR ''e'' = CHR ''E''"
  "toUpperChar CHR ''f'' = CHR ''F''"
  "toUpperChar CHR ''g'' = CHR ''G''"
  "toUpperChar CHR ''h'' = CHR ''H''"
  "toUpperChar CHR ''i'' = CHR ''I''"
  "toUpperChar CHR ''j'' = CHR ''J''"
  "toUpperChar CHR ''k'' = CHR ''K''"
  "toUpperChar CHR ''l'' = CHR ''L''"
  "toUpperChar CHR ''m'' = CHR ''M''"
  "toUpperChar CHR ''n'' = CHR ''N''"
  "toUpperChar CHR ''o'' = CHR ''O''"
  "toUpperChar CHR ''p'' = CHR ''P''"
  "toUpperChar CHR ''q'' = CHR ''Q''"
  "toUpperChar CHR ''r'' = CHR ''R''"
  "toUpperChar CHR ''s'' = CHR ''S''"
  "toUpperChar CHR ''t'' = CHR ''T''"
  "toUpperChar CHR ''u'' = CHR ''U''"
  "toUpperChar CHR ''v'' = CHR ''V''"
  "toUpperChar CHR ''w'' = CHR ''W''"
  "toUpperChar CHR ''x'' = CHR ''X''"
  "toUpperChar CHR ''y'' = CHR ''Y''"
  "toUpperChar CHR ''z'' = CHR ''Z''"
  "toUpperChar CHR ''A'' = CHR ''A''"
  "toUpperChar CHR ''B'' = CHR ''B''"
  "toUpperChar CHR ''C'' = CHR ''C''"
  "toUpperChar CHR ''D'' = CHR ''D''"
  "toUpperChar CHR ''E'' = CHR ''E''"
  "toUpperChar CHR ''F'' = CHR ''F''"
  "toUpperChar CHR ''G'' = CHR ''G''"
  "toUpperChar CHR ''H'' = CHR ''H''"
  "toUpperChar CHR ''I'' = CHR ''I''"
  "toUpperChar CHR ''J'' = CHR ''J''"
  "toUpperChar CHR ''K'' = CHR ''K''"
  "toUpperChar CHR ''L'' = CHR ''L''"
  "toUpperChar CHR ''M'' = CHR ''M''"
  "toUpperChar CHR ''N'' = CHR ''N''"
  "toUpperChar CHR ''O'' = CHR ''O''"
  "toUpperChar CHR ''P'' = CHR ''P''"
  "toUpperChar CHR ''Q'' = CHR ''Q''"
  "toUpperChar CHR ''R'' = CHR ''R''"
  "toUpperChar CHR ''S'' = CHR ''S''"
  "toUpperChar CHR ''T'' = CHR ''T''"
  "toUpperChar CHR ''U'' = CHR ''U''"
  "toUpperChar CHR ''V'' = CHR ''V''"
  "toUpperChar CHR ''W'' = CHR ''W''"
  "toUpperChar CHR ''X'' = CHR ''X''"
  "toUpperChar CHR ''Y'' = CHR ''Y''"
  "toUpperChar CHR ''Z'' = CHR ''Z''"
  "toUpperChar CHR '' '' = CHR '' ''"
  "toUpperChar CHR ''.'' = CHR ''.''"
  "toUpperChar CHR ''/'' = CHR ''/''"
  "toUpperChar CHR ''-'' = CHR ''-''"
  "toUpperChar CHR ''&'' = CHR ''&''"
  "toUpperChar CHR '':'' = CHR '':''"
  "toUpperChar CHR ''_'' = CHR ''_''"
  "toUpperChar CHR ''@'' = CHR ''@''"
  "toUpperChar (CHR 0x27) = (CHR 0x27)"
  "toUpperChar (CHR 0x22) = (CHR 0x22)"
  by (simp_all add: char_eval)

lemma lower_memo:
  "toLowerChar CHR ''a'' = CHR ''a''"
  "toLowerChar CHR ''b'' = CHR ''b''"
  "toLowerChar CHR ''c'' = CHR ''c''"
  "toLowerChar CHR ''d'' = CHR ''d''"
  "toLowerChar CHR ''e'' = CHR ''e''"
  "toLowerChar CHR ''f'' = CHR ''f''"
  "toLowerChar CHR ''g'' = CHR ''g''"
  "toLowerChar CHR ''h'' = CHR ''h''"
  "toLowerChar CHR ''i'' = CHR ''i''"
  "toLowerChar CHR ''j'' = CHR ''j''"
  "toLowerChar CHR ''k'' = CHR ''k''"
  "toLowerChar CHR ''l'' = CHR ''l''"
  "toLowerChar CHR ''m'' = CHR ''m''"
  "toLowerChar CHR ''n'' = CHR ''n''"
  "toLowerChar CHR ''o'' = CHR ''o''"
  "toLowerChar CHR ''p'' = CHR ''p''"
  "toLowerChar CHR ''q'' = CHR ''q''"
  "toLowerChar CHR ''r'' = CHR ''r''"
  "toLowerChar CHR ''s'' = CHR ''s''"
  "toLowerChar CHR ''t'' = CHR ''t''"
  "toLowerChar CHR ''u'' = CHR ''u''"
  "toLowerChar CHR ''v'' = CHR ''v''"
  "toLowerChar CHR ''w'' = CHR ''w''"
  "toLowerChar CHR ''x'' = CHR ''x''"
  "toLowerChar CHR ''y'' = CHR ''y''"
  "toLowerChar CHR ''z'' = CHR ''z''"
  "toLowerChar CHR ''A'' = CHR ''a''"
  "toLowerChar CHR ''B'' = CHR ''b''"
  "toLowerChar CHR ''C'' = CHR ''c''"
  "toLowerChar CHR ''D'' = CHR ''d''"
  "toLowerChar CHR ''E'' = CHR ''e''"
  "toLowerChar CHR ''F'' = CHR ''f''"
  "toLowerChar CHR ''G'' = CHR ''g''"
  "toLowerChar CHR ''H'' = CHR ''h''"
  "toLowerChar CHR ''I'' = CHR ''i''"
  "toLowerChar CHR ''J'' = CHR ''j''"
  "toLowerChar CHR ''K'' = CHR ''k''"
  "toLowerChar CHR ''L'' = CHR ''l''"
  "toLowerChar CHR ''M'' = CHR ''m''"
  "toLowerChar CHR ''N'' = CHR ''n''"
  "toLowerChar CHR ''O'' = CHR ''o''"
  "toLowerChar CHR ''P'' = CHR ''p''"
  "toLowerChar CHR ''Q'' = CHR ''q''"
  "toLowerChar CHR ''R'' = CHR ''r''"
  "toLowerChar CHR ''S'' = CHR ''s''"
  "toLowerChar CHR ''T'' = CHR ''t''"
  "toLowerChar CHR ''U'' = CHR ''u''"
  "toLowerChar CHR ''V'' = CHR ''v''"
  "toLowerChar CHR ''W'' = CHR ''w''"
  "toLowerChar CHR ''X'' = CHR ''x''"
  "toLowerChar CHR ''Y'' = CHR ''y''"
  "toLowerChar CHR ''Z'' = CHR ''z''"
  "toLowerChar CHR '' '' = CHR '' ''"
  "toLowerChar CHR ''.'' = CHR ''.''"
  "toLowerChar CHR ''/'' = CHR ''/''"
  "toLowerChar CHR ''-'' = CHR ''-''"
  "toLowerChar CHR ''&'' = CHR ''&''"
  "toLowerChar CHR '':'' = CHR '':''"
  "toLowerChar CHR ''_'' = CHR ''_''"
  "toLowerChar CHR ''@'' = CHR ''@''"
  "toLowerChar (CHR 0x27) = (CHR 0x27)"
  "toLowerChar (CHR 0x22) = (CHR 0x22)"
  by (simp_all add: char_eval)

lemmas char_memo = word_memo space_memo lt_memo upper_memo lower_memo toLowerCase_def toUpperCase_def

lemmas rx_eval = Rstar_def Rplus_def Ropt_def Rlazy_plus_def words_def plural_def wb_def dots_def
  bword_def bgroup_def path_chars_def npm_chars_def re_test_def re_match_def matched_text_def match_all_def
  capture_def
lemmas str_eval = trim_def trimStart_def split_spaces_def
lemmas ent_eval = extractEntities_def FILE_PATH_PATTERN_def ABSOLUTE_PATH_PATTERN_def URL_PATTERN_def
     NPM_INSTALL_PATTERN_def PIP_INSTALL_PATTERN_def GIT_PATTERN_def packages_of_def git_ops_of_def
lemmas score_eval = score_type_def emit_def entity_boost_def boost_if_def

subsection \<open>The input \<^verbatim>\<open>read file src/agent.js\<close>\<close>

lemma entities_read: "extractEntities ''read file src/agent.js'' =
    \<lparr>filePaths = [''src/agent.js''], urls = [], commands = [], packages = [], gitOps = []\<rparr>"
  by (simp add: ent_eval rx_eval char_memo str_eval)

lemma lower_read: "toLowerCase ''read file src/agent.js'' = ''read file src/agent.js''"
  by (simp add: char_memo)

lemma score_read_FILE_READ: "score_type ''read file src/agent.js'' ''read file src/agent.js''
    \<lparr>filePaths = [''src/agent.js''], urls = [], commands = [], packages = [], gitOps = []\<rparr> FILE_READ =
    [\<lparr>taskType = ''file_read'', c_confidence = 1 / 2, matchedPatterns = 1, matchedKeywords = 1,
       c_tools = [''read_file'', ''list_directory''], c_entities = \<lparr>filePaths = [''src/agent.js''], urls = [], commands = [], packages = [], gitOps = []\<rparr>\<rparr>]"
  by (simp add: score_eval FILE_READ_def rx_eval char_memo num_eval)

lemma score_read_FILE_WRITE: "score_type ''read file src/agent.js'' ''read file src/agent.js''
    \<lparr>filePaths = [''src/agent.js''], urls = [], commands = [], packages = [], gitOps = []\<rparr> FILE_WRITE =
    [\<lparr>taskType = ''file_write'', c_confidence = 3602879701896397 / 36028797018963968, matchedPatterns = 0, matchedKeywords = 0,
       c_tools = [''create_file''], c_entities = \<lparr>filePaths = [''src/agent.js''], urls = [], commands = [], packages = [], gitOps = []\<rparr>\<rparr>]"
  by (simp add: score_eval FILE_WRITE_def rx_eval char_memo num_eval)

lemma score_read_FILE_EDIT: "score_type ''read file src/agent.js'' ''read file src/agent.js''
    \<lparr>filePaths = [''src/agent.js''], urls = [], commands = [], packages = [], gitOps = []\<rparr> FILE_EDIT =
    [\<lparr>taskType = ''file_edit'', c_confidence = 3602879701896397 / 18014398509481984, matchedPatterns = 0, matchedKeywords = 0,
       c_tools = [''edit_file'', ''read_file''], c_entities = \<lparr>filePaths = [''src/agent.js''], urls = [], commands = [], packages = [], gitOps = []\<rparr>\<rparr>]"
  by (simp add: score_eval FILE_EDIT_def rx_eval char_memo num_eval)

lemma score_read_SHELL_COMMAND: "score_type ''read file src/agent.js'' ''read file src/agent.js''
    \<lparr>filePaths = [''src/agent.js''], urls = [], commands = [], packages = [], gitOps = []\<rparr> SHELL_COMMAND =
    []"
  by (simp add: score_eval SHELL_COMMAND_def rx_eval char_memo num_eval)

lemma score_read_HTTP_REQUEST: "score_type ''read file src/agent.js'' ''read file src/agent.js''
    \<lparr>filePaths = [''src/agent.js''], urls = [], commands = [], packages = [], gitOps = []\<rparr> HTTP_REQUEST =
    []"
  by (simp add: score_eval HTTP_REQUEST_def rx_eval char_memo num_eval)

lemma score_read_CODE_ANALYSIS: "score_type ''read file src/agent.js'' ''read file src/agent.js''
    \<lparr>filePaths = [''src/agent.js''], urls = [], commands = [], packages = [], gitOps = []\<rparr> CODE_ANALYSIS =
    [\<lparr>taskType = ''code_analysis'', c_confidence = 3602879701896397 / 72057594037927936, matchedPatterns = 0, matchedKeywords = 0,
       c_tools = [''read_file'', ''search_files'', ''run_command''], c_entities = \<lparr>filePaths = [''src/agent.js''], urls = [], commands = [], packages = [], gitOps = []\<rparr>\<rparr>]"
  by (simp add: score_eval CODE_ANALYSIS_def rx_eval char_memo num_eval)

lemma score_read_PROJECT_SCAFFOLD: "score_type ''read file src/agent.js'' ''read file src/agent.js''
    \<lparr>filePaths = [''src/agent.js''], urls = [], commands = [], packages = [], gitOps = []\<rparr> PROJECT_SCAFFOLD =
    []"
  by (simp add: score_eval PROJECT_SCAFFOLD_def rx_eval char_memo num_eval)

lemma score_read_SEARCH: "score_type ''read file src/agent.js'' ''read file src/agent.js''
    \<lparr>filePaths = [''src/agent.js''], urls = [], commands = [], packages = [], gitOps = []\<rparr> SEARCH =
    []"
  by (simp add: score_eval SEARCH_def rx_eval char_memo num_eval)

lemma score_read_TESTING: "score_type ''read file src/agent.js'' ''read file src/agent.js''
    \<lparr>filePaths = [''src/agent.js''], urls = [], commands = [], packages = [], gitOps = []\<rparr> TESTING =
    []"
  by (simp add: score_eval TESTING_def rx_eval char_memo num_eval)

lemma score_read_DEPLOYMENT: "score_type ''read file src/agent.js'' ''read file src/agent.js''
    \<lparr>filePaths = [''src/agent.js''], urls = [], commands = [], packages = [], gitOps = []\<rparr> DEPLOYMENT =
    []"
  by (simp add: score_eval DEPLOYMENT_def rx_eval char_memo num_eval)

lemma scores_read: "scoreTaskTypes ''read file src/agent.js'' =
    [\<lparr>taskType = ''file_read'', c_confidence = 1 / 2, matchedPatterns = 1, matchedKeywords = 1,
       c_tools = [''read_file'', ''list_directory''], c_entities = \<lparr>filePaths = [''src/agent.js''], urls = [], commands = [], packages = [], gitOps = []\<rparr>\<rparr>,
     \<lparr>taskType = ''file_edit'', c_confidence = 3602879701896397 / 18014398509481984, matchedPatterns = 0, matchedKeywords = 0,
       c_tools = [''edit_file'', ''read_file''], c_entities = \<lparr>filePaths = [''src/agent.js''], urls = [], commands = [], packages = [], gitOps = []\<rparr>\<rparr>,
     \<lparr>taskType = ''file_write'', c_confidence = 3602879701896397 / 36028797018963968, matchedPatterns = 0, matchedKeywords = 0,
       c_tools = [''create_file''], c_entities = \<lparr>filePaths = [''src/agent.js''], urls = [], commands = [], packages = [], gitOps = []\<rparr>\<rparr>,
     \<lparr>taskType = ''code_analysis'', c_confidence = 3602879701896397 / 72057594037927936, matchedPatterns = 0, matchedKeywords = 0,
       c_tools = [''read_file'', ''search_files'', ''run_command''], c_entities = \<lparr>filePaths = [''src/agent.js''], urls = [], commands = [], packages = [], gitOps = []\<rparr>\<rparr>]"
  by (simp add: scoreTaskTypes_def lower_read entities_read TASK_TYPES_def compare_scores_le
      score_read_FILE_READ score_read_FILE_WRITE score_read_FILE_EDIT score_read_SHELL_COMMAND score_read_HTTP_REQUEST score_read_CODE_ANALYSIS score_read_PROJECT_SCAFFOLD score_read_SEARCH score_read_TESTING score_read_DEPLOYMENT)

subsection \<open>The input \<^verbatim>\<open>npm test\<close>\<close>

lemma entities_npm: "extractEntities ''npm test'' =
    \<lparr>filePaths = [], urls = [], commands = [], packages = [], gitOps = []\<rparr>"
  by (simp add: ent_eval rx_eval char_memo str_eval)

lemma lower_npm: "toLowerCase ''npm test'' = ''npm test''"
  by (simp add: char_memo)

lemma score_npm_FILE_READ: "score_type ''npm test'' ''npm test''
    \<lparr>filePaths = [], urls = [], commands = [], packages = [], gitOps = []\<rparr> FILE_READ =
    []"
  by (simp add: score_eval FILE_READ_def rx_eval char_memo num_eval)

lemma score_npm_FILE_WRITE: "score_type ''npm test'' ''npm test''
    \<lparr>filePaths = [], urls = [], commands = [], packages = [], gitOps = []\<rparr> FILE_WRITE =
    []"
  by (simp add: score_eval FILE_WRITE_def rx_eval char_memo num_eval)

lemma score_npm_FILE_EDIT: "score_type ''npm test'' ''npm test''
    \<lparr>filePaths = [], urls = [], commands = [], packages = [], gitOps = []\<rparr> FILE_EDIT =
    []"
  by (simp add: score_eval FILE_EDIT_def rx_eval char_memo num_eval)

lemma score_npm_SHELL_COMMAND: "score_type ''npm test'' ''npm test''
    \<lparr>filePaths = [], urls = [], commands = [], packages = [], gitOps = []\<rparr> SHELL_COMMAND =
    [\<lparr>taskType = ''shell_command'', c_confidence = 3602879701896397 / 9007199254740992, matchedPatterns = 1, matchedKeywords = 1,
       c_tools = [''run_command''], c_entities = \<lparr>filePaths = [], urls = [], commands = [], packages = [], gitOps = []\<rparr>\<rparr>]"
  by (simp add: score_eval SHELL_COMMAND_def rx_eval char_memo num_eval)

lemma score_npm_HTTP_REQUEST: "score_type ''npm test'' ''npm test''
    \<lparr>filePaths = [], urls = [], commands = [], packages = [], gitOps = []\<rparr> HTTP_REQUEST =
    []"
  by (simp add: score_eval HTTP_REQUEST_def rx_eval char_memo num_eval)

lemma score_npm_CODE_ANALYSIS: "score_type ''npm test'' ''npm test''
    \<lparr>filePaths = [], urls = [], commands = [], packages = [], gitOps = []\<rparr> CODE_ANALYSIS =
    []"
  by (simp add: score_eval CODE_ANALYSIS_def rx_eval char_memo num_eval)

lemma score_npm_PROJECT_SCAFFOLD: "score_type ''npm test'' ''npm test''
    \<lparr>filePaths = [], urls = [], commands = [], packages = [], gitOps = []\<rparr> PROJECT_SCAFFOLD =
    []"
  by (simp add: score_eval PROJECT_SCAFFOLD_def rx_eval char_memo num_eval)

lemma score_npm_SEARCH: "score_type ''npm test'' ''npm test''
    \<lparr>filePaths = [], urls = [], commands = [], packages = [], gitOps = []\<rparr> SEARCH =
    []"
  by (simp add: score_eval SEARCH_def rx_eval char_memo num_eval)

lemma score_npm_TESTING: "score_type ''npm test'' ''npm test''
    \<lparr>filePaths = [], urls = [], commands = [], packages = [], gitOps = []\<rparr> TESTING =
    [\<lparr>taskType = ''testing'', c_confidence = 3602879701896397 / 9007199254740992, matchedPatterns = 1, matchedKeywords = 1,
       c_tools = [''run_command'', ''create_file'', ''read_file''], c_entities = \<lparr>filePaths = [], urls = [], commands = [], packages = [], gitOps = []\<rparr>\<rparr>]"
  by (simp add: score_eval TESTING_def rx_eval char_memo num_eval)

lemma score_npm_DEPLOYMENT: "score_type ''npm test'' ''npm test''
    \<lparr>filePaths = [], urls = [], commands = [], packages = [], gitOps = []\<rparr> DEPLOYMENT =
    []"
  by (simp add: score_eval DEPLOYMENT_def rx_eval char_memo num_eval)

lemma scores_npm: "scoreTaskTypes ''npm test'' =
    [\<lparr>taskType = ''shell_command'', c_confidence = 3602879701896397 / 9007199254740992, matchedPatterns = 1, matchedKeywords = 1,
       c_tools = [''run_command''], c_entities = \<lparr>filePaths = [], urls = [], commands = [], packages = [], gitOps = []\<rparr>\<rparr>,
     \<lparr>taskType = ''testing'', c_confidence = 3602879701896397 / 9007199254740992, matchedPatterns = 1, matchedKeywords = 1,
       c_tools = [''run_command'', ''create_file'', ''read_file''], c_entities = \<lparr>filePaths = [], urls = [], commands = [], packages = [], gitOps = []\<rparr>\<rparr>]"
  by (simp add: scoreTaskTypes_def lower_npm entities_npm TASK_TYPES_def compare_scores_le
      score_npm_FILE_READ score_npm_FILE_WRITE score_npm_FILE_EDIT score_npm_SHELL_COMMAND score_npm_HTTP_REQUEST score_npm_CODE_ANALYSIS score_npm_PROJECT_SCAFFOLD score_npm_SEARCH score_npm_TESTING score_npm_DEPLOYMENT)

subsection \<open>The input \<^verbatim>\<open>pip install flask && git stash\<close>\<close>

lemma entities_pip: "extractEntities ''pip install flask && git stash'' =
    \<lparr>filePaths = [], urls = [], commands = [], packages = [''flask''], gitOps = [\<lparr>operation = ''stash'', op_args = []\<rparr>]\<rparr>"
  by (simp add: ent_eval rx_eval char_memo str_eval)

lemma lower_pip: "toLowerCase ''pip install flask && git stash'' = ''pip install flask && git stash''"
  by (simp add: char_memo)

lemma score_pip_SHELL_COMMAND: "score_type ''pip install flask && git stash'' ''pip install flask && git stash''
    \<lparr>filePaths = [], urls = [], commands = [], packages = [''flask''], gitOps = [\<lparr>operation = ''stash'', op_args = []\<rparr>]\<rparr> SHELL_COMMAND =
    [\<lparr>taskType = ''shell_command'', c_confidence = 1, matchedPatterns = 1, matchedKeywords = 3,
       c_tools = [''run_command''], c_entities = \<lparr>filePaths = [], urls = [], commands = [], packages = [''flask''], gitOps = [\<lparr>operation = ''stash'', op_args = []\<rparr>]\<rparr>\<rparr>]"
  by (simp add: score_eval SHELL_COMMAND_def rx_eval char_memo num_eval)

subsection \<open>The input \<^verbatim>\<open>hello\<close>\<close>















section \<open>The classifier: claims\<close>

lemma classify_read: "classify ''read file src/agent.js'' default_threshold =
   \<lparr> intent = ''file_read'', confidence = 1 / 2, needsModel = False, reason = ''deterministic_match'',
     tools = [''read_file'', ''list_directory''],
     entities = \<lparr>filePaths = [''src/agent.js''], urls = [], commands = [], packages = [], gitOps = []\<rparr>,
     allScores = take 3 (scoreTaskTypes ''read file src/agent.js'') \<rparr>"
  unfolding classify_def scores_read list.case
  by (simp add: default_threshold_def num_eval)

lemma classify_npm:
  "intent (classify ''npm test'' t) = ''shell_command''"
  "needsModel (classify ''npm test'' t)"
  "reason (classify ''npm test'' t) \<noteq> ''no_pattern_match''"
  "entities (classify ''npm test'' t) =
     \<lparr>filePaths = [], urls = [], commands = [], packages = [], gitOps = []\<rparr>"
  unfolding classify_def scores_npm list.case
  by (simp_all add: num_eval)

lemma plan_npm: "planFromIntent (classify ''npm test'' t) ''npm test'' =
   \<lparr> p_intent = ''shell_command'', steps = [], requiresModelForPlanning = True \<rparr>"
  by (simp add: planFromIntent_def classify_npm no_steps_def)

lemma boosted_candidate:
  assumes fp: "filePaths e \<noteq> []"
    and idt: "tt_id t \<in> set [''file_read'', ''file_write'', ''file_edit'', ''code_analysis'']"
    and b: "\<And>s. 0 \<le> s \<Longrightarrow> d \<le> fadd s (confidence_boost t)" and d: "0 < d" "d \<le> 1"
  shows "\<exists>c. score_type input (toLowerCase input) e t = [c] \<and> taskType c = tt_id t \<and> d \<le> c_confidence c
     \<and> matchedPatterns c = matching_patterns input t \<and> matchedKeywords c = matching_keywords input t"
proof -
  have bc: "boost_count e t = 1"
    using fp idt by (auto simp: boost_count_def)
  have "d \<le> fadd (base_score input t) (confidence_boost t)"
    by (rule b) (rule base_score_nonneg)
  then have "d \<le> min (add_times (boost_count e t) (confidence_boost t) (base_score input t)) 1"
    using d by (simp add: bc)
  then show ?thesis using d
    by (simp add: score_type_closed emit_def)
qed

lemma score_type_in_scores:
  "t \<in> set TASK_TYPES \<Longrightarrow> score_type input (toLowerCase input) (extractEntities input) t = [c]
    \<Longrightarrow> c \<in> set (scoreTaskTypes input)"
proof -
  have "set (score_type input lower e t) \<subseteq> set (score_all input lower e ts)" if "t \<in> set ts"
    for lower e ts
    using that by (induction ts) auto
  then show "t \<in> set TASK_TYPES \<Longrightarrow> score_type input (toLowerCase input) (extractEntities input) t = [c]
    \<Longrightarrow> c \<in> set (scoreTaskTypes input)"
    by (fastforce simp: scoreTaskTypes_def set_sort_scores)
qed

lemma counts_pip:
  "matching_patterns ''pip install flask && git stash'' SHELL_COMMAND = 1"
  "matching_keywords ''pip install flask && git stash'' SHELL_COMMAND = 3"
  by (simp_all add: matching_patterns_def matching_keywords_def SHELL_COMMAND_def rx_eval char_memo)

lemma add_times_numeral: "add_times (numeral k) x s = add_times (pred_numeral k) x (fadd s x)"
  by (simp add: numeral_eq_Suc)

lemma base_pip: "base_score ''pip install flask && git stash'' SHELL_COMMAND = 5404319552844595 / 9007199254740992"
  unfolding base_score_def counts_pip
  by (simp add: add_times_numeral num_eval)

lemma relevant_pip: "spec_relevant (extractEntities ''pip install flask && git stash'') SHELL_COMMAND"
  unfolding entities_pip by (simp add: spec_relevant_def SHELL_COMMAND_def)

lemma boost_shell: "confidence_boost SHELL_COMMAND = lit (2 / 10)"
  by (simp add: SHELL_COMMAND_def)

text \<open>
  Claim C2. Whenever \<^verbatim>\<open>classify(input, threshold)\<close> returns \<^verbatim>\<open>needsModel = false\<close>, its
  \<^verbatim>\<open>reason\<close> is \<^verbatim>\<open>"deterministic_match"\<close> and its confidence is at least the threshold.
\<close>

theorem deterministic_invariant:
  "needsModel (classify input threshold) = False \<Longrightarrow>
   reason (classify input threshold) = ''deterministic_match''
   \<and> threshold \<le> confidence (classify input threshold)"
  by (cases "scoreTaskTypes input") (auto simp: classify_def split: if_splits)

text \<open>
  Claim C2, at the input \<^verbatim>\<open>read file src/agent.js\<close> with the default threshold, where
  \<^verbatim>\<open>needsModel\<close> is false.
\<close>

theorem deterministic_invariant_witness:
  "needsModel (classify ''read file src/agent.js'' default_threshold) = False
   \<and> reason (classify ''read file src/agent.js'' default_threshold) = ''deterministic_match''
   \<and> default_threshold \<le> confidence (classify ''read file src/agent.js'' default_threshold)"
  using deterministic_invariant[of "''read file src/agent.js''" default_threshold]
  by (simp add: classify_read)

text \<open>
  Claim C5, as the code has it. For every input and every task type the scorer pushes a candidate
  exactly when the confidence is greater than zero; the confidence is the minimum of 1 and the
  sum that starts at 0 and receives \<^verbatim>\<open>0.3\<close> once per matching pattern, then \<^verbatim>\<open>0.1\<close> once per
  keyword whose lower-case form occurs in the lower-cased input, then the boost of the type once
  for every populated entity category the type is relevant to (file paths: the three file types
  and code analysis; URLs: HTTP requests; git operations: shell commands; packages: shell
  commands), each addition rounded as JavaScript does. The candidate list holds the candidates
  of all task types of the table.
\<close>

theorem scoring_formula:
  "score_type input (toLowerCase input) (extractEntities input) t =
     (if 0 < min (add_times (boost_count (extractEntities input) t) (confidence_boost t) (base_score input t)) 1
      then [\<lparr> taskType = tt_id t,
               c_confidence = min (add_times (boost_count (extractEntities input) t) (confidence_boost t)
                                     (base_score input t)) 1,
               matchedPatterns = matching_patterns input t,
               matchedKeywords = matching_keywords input t,
               c_tools = tt_tools t, c_entities = extractEntities input \<rparr>]
      else [])
   \<and> set (scoreTaskTypes input)
       = set (concat (map (score_type input (toLowerCase input) (extractEntities input)) TASK_TYPES))"
proof
  show "score_type input (toLowerCase input) (extractEntities input) t =
     (if 0 < min (add_times (boost_count (extractEntities input) t) (confidence_boost t) (base_score input t)) 1
      then [\<lparr> taskType = tt_id t,
               c_confidence = min (add_times (boost_count (extractEntities input) t) (confidence_boost t)
                                     (base_score input t)) 1,
               matchedPatterns = matching_patterns input t,
               matchedKeywords = matching_keywords input t,
               c_tools = tt_tools t, c_entities = extractEntities input \<rparr>]
      else [])"
    by (simp add: score_type_closed emit_def)
  have "score_all input lower e ts = concat (map (score_type input lower e) ts)" for lower e ts
    by (induction ts) simp_all
  then show "set (scoreTaskTypes input)
       = set (concat (map (score_type input (toLowerCase input) (extractEntities input)) TASK_TYPES))"
    by (simp add: scoreTaskTypes_def set_sort_scores)
qed

text \<open>
  Claim C5 speaks of a one-time boost. The input \<^verbatim>\<open>pip install flask && git stash\<close> yields
  a package and a git operation; it matches one pattern and three keywords of the shell command
  type, which gives \<^verbatim>\<open>0.6\<close>. The scorer adds the boost \<^verbatim>\<open>0.2\<close> twice and reports the
  confidence \<^verbatim>\<open>1\<close>; with a one-time boost the confidence would be \<^verbatim>\<open>0.8\<close>.
\<close>

theorem one_time_boost_counterexample:
  "map c_confidence (score_type ''pip install flask && git stash''
       (toLowerCase ''pip install flask && git stash'')
       (extractEntities ''pip install flask && git stash'') SHELL_COMMAND) = [1]
   \<and> spec_confidence ''pip install flask && git stash'' SHELL_COMMAND = lit (8 / 10)
   \<and> lit (8 / 10) < 1"
  unfolding spec_confidence_def base_pip lower_pip entities_pip score_pip_SHELL_COMMAND boost_shell
  using relevant_pip unfolding entities_pip
  by (simp add: num_eval)

text \<open>
  Claim C6. The candidate list of the scorer holds the candidates that the task types of the
  table yield, each as often as it was pushed: it has their number, and for every confidence
  the candidates of that confidence are those that were pushed with it, in the order in which
  they were pushed, which is the order of the task type table (whose identifiers are distinct).
  The list is sorted by descending confidence.
\<close>

theorem sorted_stable:
  "sorted_wrt (\<lambda>a b. c_confidence b \<le> c_confidence a) (scoreTaskTypes input)
   \<and> length (scoreTaskTypes input)
       = length (concat (map (score_type input (toLowerCase input) (extractEntities input)) TASK_TYPES))
   \<and> (\<forall>k. filter (\<lambda>c. c_confidence c = k) (scoreTaskTypes input)
            = filter (\<lambda>c. c_confidence c = k)
                (concat (map (score_type input (toLowerCase input) (extractEntities input)) TASK_TYPES)))
   \<and> (\<forall>k. subseq (map taskType (filter (\<lambda>c. c_confidence c = k) (scoreTaskTypes input)))
                  (map tt_id TASK_TYPES))
   \<and> distinct (map tt_id TASK_TYPES)"
proof (intro conjI allI)
  show "sorted_wrt (\<lambda>a b. c_confidence b \<le> c_confidence a) (scoreTaskTypes input)"
    by (simp add: scoreTaskTypes_def sorted_sort_scores)
  show "length (scoreTaskTypes input)
       = length (concat (map (score_type input (toLowerCase input) (extractEntities input)) TASK_TYPES))"
    by (simp only: scoreTaskTypes_def length_sort_scores score_all_concat)
  fix k
  show "filter (\<lambda>c. c_confidence c = k) (scoreTaskTypes input)
            = filter (\<lambda>c. c_confidence c = k)
                (concat (map (score_type input (toLowerCase input) (extractEntities input)) TASK_TYPES))"
    by (simp only: scoreTaskTypes_def filter_sort_scores score_all_concat)
  have "subseq (map taskType (filter (\<lambda>c. c_confidence c = k)
            (score_all input (toLowerCase input) (extractEntities input) TASK_TYPES)))
          (map taskType (score_all input (toLowerCase input) (extractEntities input) TASK_TYPES))"
    by (simp add: subseq_map)
  then show "subseq (map taskType (filter (\<lambda>c. c_confidence c = k) (scoreTaskTypes input)))
                  (map tt_id TASK_TYPES)"
    using score_all_subseq[of input "toLowerCase input" "extractEntities input" TASK_TYPES]
    by (simp add: scoreTaskTypes_def filter_sort_scores)
  show "distinct (map tt_id TASK_TYPES)"
    by (simp add: TASK_TYPES_def FILE_READ_def FILE_WRITE_def FILE_EDIT_def SHELL_COMMAND_def
        HTTP_REQUEST_def CODE_ANALYSIS_def PROJECT_SCAFFOLD_def SEARCH_def TESTING_def DEPLOYMENT_def)
qed

text \<open>
  Claim C7. When the top candidate reaches the threshold, \<^verbatim>\<open>classify\<close> returns
  \<^verbatim>\<open>needsModel = true\<close> with the reason \<^verbatim>\<open>"ambiguous_top_scores"\<close> if there is a second
  candidate and the top confidence minus the second confidence is less than \<^verbatim>\<open>0.1\<close>, and
  \<^verbatim>\<open>needsModel = false\<close> with the reason \<^verbatim>\<open>"deterministic_match"\<close> otherwise.
\<close>

theorem ambiguity_rule:
  "scoreTaskTypes input = topc # others \<Longrightarrow> threshold \<le> c_confidence topc \<Longrightarrow>
   (if (case others of [] \<Rightarrow> False
        | second # further \<Rightarrow> fsub (c_confidence topc) (c_confidence second) < lit (1 / 10))
    then needsModel (classify input threshold)
       \<and> reason (classify input threshold) = ''ambiguous_top_scores''
    else \<not> needsModel (classify input threshold)
       \<and> reason (classify input threshold) = ''deterministic_match'')"
  by (cases others) (simp_all add: classify_def)

text \<open>
  Claim C7 at two inputs: \<^verbatim>\<open>npm test\<close>, whose two candidates both have the confidence
  \<^verbatim>\<open>0.4\<close>, and \<^verbatim>\<open>read file src/agent.js\<close>, whose top candidate leads by \<^verbatim>\<open>0.3\<close>.
\<close>

theorem ambiguity_rule_witness:
  "scoreTaskTypes ''npm test'' \<noteq> []
   \<and> default_threshold \<le> c_confidence (hd (scoreTaskTypes ''npm test''))
   \<and> needsModel (classify ''npm test'' default_threshold)
   \<and> reason (classify ''npm test'' default_threshold) = ''ambiguous_top_scores''
   \<and> scoreTaskTypes ''read file src/agent.js'' \<noteq> []
   \<and> default_threshold \<le> c_confidence (hd (scoreTaskTypes ''read file src/agent.js''))
   \<and> \<not> needsModel (classify ''read file src/agent.js'' default_threshold)
   \<and> reason (classify ''read file src/agent.js'' default_threshold) = ''deterministic_match''"
  using ambiguity_rule[OF scores_npm, of default_threshold]
        ambiguity_rule[OF scores_read, of default_threshold]
  by (simp add: scores_npm scores_read default_threshold_def num_eval)

text \<open>
  Claim C8. For the input \<^verbatim>\<open>read file src/agent.js\<close> and the default threshold,
  \<^verbatim>\<open>classify\<close> returns the intent \<^verbatim>\<open>file_read\<close> with \<^verbatim>\<open>needsModel = false\<close>, and the planner
  returns the plan of the one step \<^verbatim>\<open>read_file\<close> on the path \<^verbatim>\<open>src/agent.js\<close>, with
  \<^verbatim>\<open>requiresModelForPlanning = false\<close>.
\<close>

theorem read_file_example:
  "intent (classify ''read file src/agent.js'' default_threshold) = ''file_read''
   \<and> needsModel (classify ''read file src/agent.js'' default_threshold) = False
   \<and> planFromIntent (classify ''read file src/agent.js'' default_threshold) ''read file src/agent.js'' =
       \<lparr> p_intent = ''file_read'',
         steps = [\<lparr> tool = ''read_file'', args = JObj [(''path'', JStr ''src/agent.js'')] \<rparr>],
         requiresModelForPlanning = False \<rparr>"
  by (simp add: classify_read planFromIntent_def one_step_def)

text \<open>
  Claim C10. When the extractor finds a file path, the candidate list has a candidate for
  \<^verbatim>\<open>file_write\<close> with a confidence of at least \<^verbatim>\<open>0.1\<close> and one for \<^verbatim>\<open>file_edit\<close> with a
  confidence of at least \<^verbatim>\<open>0.2\<close>, whatever the number of patterns and keywords of these types
  that the input matches, none included.
\<close>

theorem entity_boost_alone:
  assumes "filePaths (extractEntities input) \<noteq> []"
  shows "(\<exists>c \<in> set (scoreTaskTypes input). taskType c = ''file_write'' \<and> lit (1 / 10) \<le> c_confidence c
            \<and> matchedPatterns c = matching_patterns input FILE_WRITE
            \<and> matchedKeywords c = matching_keywords input FILE_WRITE)
       \<and> (\<exists>c \<in> set (scoreTaskTypes input). taskType c = ''file_edit'' \<and> lit (2 / 10) \<le> c_confidence c
            \<and> matchedPatterns c = matching_patterns input FILE_EDIT
            \<and> matchedKeywords c = matching_keywords input FILE_EDIT)"
proof
  obtain c where c: "score_type input (toLowerCase input) (extractEntities input) FILE_WRITE = [c]"
      "taskType c = tt_id FILE_WRITE" "lit (1 / 10) \<le> c_confidence c"
      "matchedPatterns c = matching_patterns input FILE_WRITE"
      "matchedKeywords c = matching_keywords input FILE_WRITE"
    using boosted_candidate[OF assms, of FILE_WRITE "lit (1 / 10)" input] fadd_ge_01 lit_01_bounds
    by (auto simp: FILE_WRITE_def)
  moreover have "c \<in> set (scoreTaskTypes input)"
    using c(1) by (intro score_type_in_scores[of FILE_WRITE]) (simp_all add: TASK_TYPES_def)
  ultimately show "\<exists>c \<in> set (scoreTaskTypes input). taskType c = ''file_write'' \<and> lit (1 / 10) \<le> c_confidence c
            \<and> matchedPatterns c = matching_patterns input FILE_WRITE
            \<and> matchedKeywords c = matching_keywords input FILE_WRITE"
    by (auto simp: FILE_WRITE_def)
next
  obtain c where c: "score_type input (toLowerCase input) (extractEntities input) FILE_EDIT = [c]"
      "taskType c = tt_id FILE_EDIT" "lit (2 / 10) \<le> c_confidence c"
      "matchedPatterns c = matching_patterns input FILE_EDIT"
      "matchedKeywords c = matching_keywords input FILE_EDIT"
    using boosted_candidate[OF assms, of FILE_EDIT "lit (2 / 10)" input] fadd_ge_02 lit_02_bounds
    by (auto simp: FILE_EDIT_def)
  moreover have "c \<in> set (scoreTaskTypes input)"
    using c(1) by (intro score_type_in_scores[of FILE_EDIT]) (simp_all add: TASK_TYPES_def)
  ultimately show "\<exists>c \<in> set (scoreTaskTypes input). taskType c = ''file_edit'' \<and> lit (2 / 10) \<le> c_confidence c
            \<and> matchedPatterns c = matching_patterns input FILE_EDIT
            \<and> matchedKeywords c = matching_keywords input FILE_EDIT"
    by (auto simp: FILE_EDIT_def)
qed

text \<open>
  Claim C10 at the input \<^verbatim>\<open>read file src/agent.js\<close>, which matches no pattern and no keyword
  of the two types: both candidates exist, with \<^verbatim>\<open>matchedPatterns = 0\<close> and
  \<^verbatim>\<open>matchedKeywords = 0\<close>.
\<close>

theorem entity_boost_alone_witness:
  "filePaths (extractEntities ''read file src/agent.js'') \<noteq> []
   \<and> (\<exists>c \<in> set (scoreTaskTypes ''read file src/agent.js''). taskType c = ''file_write''
          \<and> lit (1 / 10) \<le> c_confidence c \<and> matchedPatterns c = 0 \<and> matchedKeywords c = 0)
   \<and> (\<exists>c \<in> set (scoreTaskTypes ''read file src/agent.js''). taskType c = ''file_edit''
          \<and> lit (2 / 10) \<le> c_confidence c \<and> matchedPatterns c = 0 \<and> matchedKeywords c = 0)"
  using entity_boost_alone[of "''read file src/agent.js''"]
  by (simp add: entities_read scores_read num_eval)


section \<open>The stages of the orchestrator\<close>

lemmas run_simps = push_trace_def set_state_def update_metrics_def make_result_def

lemma type_error_not_nullish: "\<not> nullish (type_error v k)"
  by (simp add: type_error_def)

lemma call_tool_props:
  "call_tool env r t a = (r', res) \<Longrightarrow>
     metrics_of r' = metrics_of r \<and> state_of r' = state_of r \<and> trace_of r' = trace_of r
     \<and> calls_of r' = calls_of r @ [(t, a)]
     \<and> world_of r' = fst (executeTool env (world_of r) t a)
     \<and> res = snd (executeTool env (world_of r) t a)"
  by (auto simp: call_tool_def split: prod.splits)

lemma step_result_cases:
  "step_result t a res =
     (case res of
        Inr v \<Rightarrow> Inr (JObj [(''tool'', t), (''args'', a), (''result'', v), (''success'', JBool True)])
      | Inl e \<Rightarrow> if nullish e then Inl (type_error e ''message'')
                 else Inr (JObj [(''tool'', t), (''args'', a), (''error'', get_field e ''message''),
                                 (''success'', JBool False)]))"
  by (cases res) (simp_all add: get_prop_def)

lemma find_map_upt: "List.find P (map f xs) = map_option f (List.find (\<lambda>x. P (f x)) xs)"
  by (induction xs) simp_all

lemma outcome_of_step_0:
  "outcome_of_step env w (s # ss) 0 = snd (executeTool env w (JStr (tool s)) (args s))"
  by (simp add: outcome_of_step_def)

lemma outcome_of_step_Suc:
  "outcome_of_step env w (s # ss) (Suc i)
     = outcome_of_step env (fst (executeTool env w (JStr (tool s)) (args s))) ss i"
  by (simp add: outcome_of_step_def)

lemma expected_result_Suc:
  "expected_result env w (s # ss) (Suc i)
     = expected_result env (fst (executeTool env w (JStr (tool s)) (args s))) ss i"
  by (simp add: expected_result_def outcome_of_step_Suc split: sum.splits)

lemma throws_nullish_Suc:
  "throws_nullish env w (s # ss) (Suc i)
     = throws_nullish env (fst (executeTool env w (JStr (tool s)) (args s))) ss i"
  by (simp add: throws_nullish_def outcome_of_step_Suc)

lemma upt_Suc_shift: "[0..<Suc n] = 0 # map Suc [0..<n]"
  by (metis upt_conv_Cons map_Suc_upt zero_less_Suc)

lemma aborting_step_Nil: "aborting_step env w [] = None"
  by (simp add: aborting_step_def)

lemma aborting_step_Cons:
  "aborting_step env w (s # ss) =
     (if throws_nullish env w (s # ss) 0 then Some 0
      else map_option Suc (aborting_step env (fst (executeTool env w (JStr (tool s)) (args s))) ss))"
  by (simp add: aborting_step_def upt_Suc_shift find_map_upt throws_nullish_Suc del: upt_Suc)

lemma expected_results_Cons:
  "map (expected_result env w (s # ss)) [0..<Suc (length ss)]
     = expected_result env w (s # ss) 0
       # map (expected_result env (fst (executeTool env w (JStr (tool s)) (args s))) ss) [0..<length ss]"
  by (simp add: upt_Suc_shift expected_result_Suc del: upt_Suc)

lemma execute_steps_frame:
  "execute_steps env r ss = (r', res) \<Longrightarrow>
     metrics_of r' = metrics_of r \<and> state_of r' = state_of r \<and> trace_of r' = trace_of r"
proof (induction ss arbitrary: r r' res)
  case Nil
  then show ?case by simp
next
  case (Cons s ss)
  obtain r1 x where c: "call_tool env r (JStr (tool s)) (args s) = (r1, x)"
    by (cases "call_tool env r (JStr (tool s)) (args s)")
  obtain r2 y where e: "execute_steps env r1 ss = (r2, y)"
    by (cases "execute_steps env r1 ss")
  from Cons.prems c e have "r' = r1 \<or> r' = r2"
    by (auto split: sum.splits)
  then show ?case using call_tool_props[OF c] Cons.IH[OF e] by auto
qed

lemma execute_steps_spec:
  "execute_steps env r ss = (r', res) \<Longrightarrow>
     (case aborting_step env (world_of r) ss of
        None \<Rightarrow> res = Inr (map (expected_result env (world_of r) ss) [0..<length ss])
                \<and> calls_of r' = calls_of r @ map call_of ss
                \<and> world_of r' = world_after_steps env (world_of r) ss
      | Some k \<Rightarrow> k < length ss
                \<and> (\<exists>e. outcome_of_step env (world_of r) ss k = Inl e \<and> nullish e
                        \<and> res = Inl (type_error e ''message''))
                \<and> calls_of r' = calls_of r @ map call_of (take (Suc k) ss)
                \<and> world_of r' = world_after_steps env (world_of r) (take (Suc k) ss))"
proof (induction ss arbitrary: r r' res)
  case Nil
  then show ?case by (simp add: aborting_step_Nil)
next
  case (Cons s ss)
  obtain r1 x where c: "call_tool env r (JStr (tool s)) (args s) = (r1, x)"
    by (cases "call_tool env r (JStr (tool s)) (args s)")
  note cp = call_tool_props[OF c]
  have x: "x = outcome_of_step env (world_of r) (s # ss) 0"
    using cp by (simp add: outcome_of_step_0)
  have w1: "world_of r1 = fst (executeTool env (world_of r) (JStr (tool s)) (args s))"
    using cp by simp
  show ?case
  proof (cases "throws_nullish env (world_of r) (s # ss) 0")
    case True
    then obtain e where e: "x = Inl e" "nullish e"
      using x by (auto simp: throws_nullish_def split: sum.splits)
    then have "r' = r1" "res = Inl (type_error e ''message'')"
      using Cons.prems c by (simp_all add: step_result_cases)
    then show ?thesis using True e x cp
      by (simp add: aborting_step_Cons call_of_def)
  next
    case False
    then have sr: "step_result (JStr (tool s)) (args s) x = Inr (expected_result env (world_of r) (s # ss) 0)"
      using x by (auto simp: step_result_cases throws_nullish_def expected_result_def split: sum.splits)
    obtain r2 y where e: "execute_steps env r1 ss = (r2, y)"
      by (cases "execute_steps env r1 ss")
    note ih = Cons.IH[OF e]
    show ?thesis
    proof (cases "aborting_step env (world_of r1) ss")
      case None
      then have y: "y = Inr (map (expected_result env (world_of r1) ss) [0..<length ss])" using ih by simp
      then have "r' = r2" "res = Inr (expected_result env (world_of r) (s # ss) 0 # map (expected_result env (world_of r1) ss) [0..<length ss])"
        using Cons.prems c e sr by simp_all
      then show ?thesis using None False ih cp w1
        by (simp add: aborting_step_Cons expected_results_Cons call_of_def del: upt_Suc)
    next
      case (Some k)
      then obtain e' where e': "outcome_of_step env (world_of r1) ss k = Inl e'" "nullish e'"
          "y = Inl (type_error e' ''message'')"
        using ih by auto
      then have "r' = r2" "res = Inl (type_error e' ''message'')"
        using Cons.prems c e sr by simp_all
      then show ?thesis using Some False ih cp w1 e'
        by (simp add: aborting_step_Cons outcome_of_step_Suc call_of_def)
    qed
  qed
qed


lemma trackIntent_fields:
  "totalTasks (trackIntent m i) = totalTasks m"
  "deterministicTasks (trackIntent m i) = deterministicTasks m"
  "modelFallbacks (trackIntent m i) = modelFallbacks m"
  "modelCallsForPlanning (trackIntent m i) = modelCallsForPlanning m"
  "modelCallsForResponse (trackIntent m i) = modelCallsForResponse m"
  "errors (trackIntent m i) = errors m"
  by (simp_all add: trackIntent_def)

lemma execute_steps_throw:
  assumes "execute_steps env r ss = (r', Inl e)"
  shows "\<not> nullish e"
  using execute_steps_spec[OF assms]
  by (auto simp: type_error_not_nullish split: option.splits)

lemma warn_failed_props:
  assumes a: "warn_failed env r e p = (r', res)"
  shows "metrics_of r' = metrics_of r \<and> state_of r' = state_of r \<and> calls_of r' = calls_of r
     \<and> trace_of r' = trace_of r
     \<and> (\<forall>x. res = Inl x \<and> nullish x \<longrightarrow> (\<exists>v s. snd (logger_warn env v s) = Inl x))"
proof (cases "nullish e")
  case True
  then show ?thesis using a
    by (auto simp: warn_failed_def get_prop_def type_error_not_nullish)
next
  case False
  obtain w' y where l: "logger_warn env (world_of r)
      (''Model plan assist failed: '' @ to_string (num_to_string env) (get_field e ''message'')) = (w', y)"
    by (cases "logger_warn env (world_of r)
      (''Model plan assist failed: '' @ to_string (num_to_string env) (get_field e ''message''))")
  have s: "snd (logger_warn env (world_of r)
      (''Model plan assist failed: '' @ to_string (num_to_string env) (get_field e ''message''))) = y"
    using l by simp
  have frame: "metrics_of r' = metrics_of r \<and> state_of r' = state_of r \<and> calls_of r' = calls_of r
     \<and> trace_of r' = trace_of r" and res: "res = Inl x \<Longrightarrow> y = Inl x" for x
    using a False l by (cases y; auto simp: warn_failed_def get_prop_def)+
  have "\<exists>v s. snd (logger_warn env v s) = Inl x" if "res = Inl x" for x
    using res[OF that] s by blast
  then show ?thesis using frame by blast
qed

lemma modelAssistPlan_props:
  "modelAssistPlan env md r input c p = (r', res) \<Longrightarrow>
     metrics_of r' = metrics_of r \<and> state_of r' = state_of r \<and> calls_of r' = calls_of r
     \<and> trace_of r' = trace_of r
     \<and> (\<forall>x. res = Inl x \<and> nullish x \<longrightarrow> (\<exists>v s. snd (logger_warn env v s) = Inl x))"
  by (auto simp: modelAssistPlan_def split: prod.splits sum.splits jsval.splits option.splits
      dest!: warn_failed_props)

lemma execute_model_steps_props:
  "execute_model_steps env r ss = (r', res) \<Longrightarrow>
     metrics_of r' = metrics_of r \<and> state_of r' = state_of r \<and> (\<forall>e. res = Inl e \<longrightarrow> \<not> nullish e)"
proof (induction ss arbitrary: r r' res)
  case Nil
  then show ?case by auto
next
  case (Cons s ss)
  show ?case
  proof (cases "nullish s")
    case True
    then show ?thesis using Cons.prems by (auto simp: type_error_not_nullish)
  next
    case False
    obtain r1 x where c: "call_tool env r (get_field s ''tool'') (get_field s ''args'') = (r1, x)"
      by (cases "call_tool env r (get_field s ''tool'') (get_field s ''args'')")
    obtain r2 y where e: "execute_model_steps env r1 ss = (r2, y)"
      by (cases "execute_model_steps env r1 ss")
    from Cons.prems False c e
    have "(r' = r1 \<and> (\<exists>z. nullish z \<and> res = Inl (type_error z ''message''))) \<or> (r' = r2 \<and> (\<forall>e. res = Inl e \<longrightarrow> y = Inl e))"
      by (auto simp: step_result_cases split: sum.splits if_splits)
    then show ?thesis using call_tool_props[OF c] Cons.IH[OF e]
      by (auto simp: type_error_not_nullish)
  qed
qed

lemma iterate_throw: "iterate msg v = Inl e \<Longrightarrow> \<not> nullish e"
  by (cases v) auto

lemma get_prop_throw: "get_prop v k = Inl e \<Longrightarrow> \<not> nullish e"
  by (auto simp: get_prop_def type_error_not_nullish split: if_splits)

lemma executeModelPlan_props:
  "executeModelPlan env r input planv c = (r', res) \<Longrightarrow>
     metrics_of r' = metrics_of r \<and> state_of r' = state_of r
     \<and> (\<forall>x. res = Inr x \<longrightarrow> \<not> deterministic x \<and> r_error x = None)
     \<and> (\<forall>e. res = Inl e \<and> nullish e \<longrightarrow>
           (\<exists>v p. t_success (templates_for env (intent c)) v p = Inl e
                 \<or> t_error (templates_for env (intent c)) v p = Inl e))"
  by (auto simp: executeModelPlan_def run_simps split: prod.splits sum.splits if_splits
      dest!: execute_model_steps_props iterate_throw get_prop_throw)

lemma validate_respond_props:
  "validate_respond env r c p rs = (r', res) \<Longrightarrow>
     calls_of r' = calls_of r \<and> world_of r' = world_of r
     \<and> (case res of
           Inl e \<Rightarrow> metrics_of r' = metrics_of r \<and> state_of r' \<in> {''validating'', ''responding''}
                    \<and> (nullish e \<longrightarrow>
                          (\<exists>v. validator_for env (intent c) v = Inl e)
                          \<or> (\<exists>v q. t_success (templates_for env (intent c)) v q = Inl e
                                  \<or> t_error (templates_for env (intent c)) v q = Inl e))
         | Inr x \<Rightarrow> metrics_of r' = (metrics_of r)\<lparr> deterministicTasks := deterministicTasks (metrics_of r) + 1 \<rparr>
                    \<and> state_of r' = ''responding''
                    \<and> deterministic x \<and> r_error x = None \<and> r_results x = Some rs)"
  by (auto simp: validate_respond_def run_simps split: prod.splits sum.splits if_splits
      dest!: get_prop_throw)

lemma modelFallback_props:
  "modelFallback env r input c = (r', res) \<Longrightarrow>
     state_of r' = state_of r \<and> calls_of r' = calls_of r
     \<and> totalTasks (metrics_of r') = totalTasks (metrics_of r)
     \<and> deterministicTasks (metrics_of r') = deterministicTasks (metrics_of r)
     \<and> errors (metrics_of r') = errors (metrics_of r)
     \<and> byIntent (metrics_of r') = byIntent (metrics_of r)
     \<and> modelFallbacks (metrics_of r') = modelFallbacks (metrics_of r) + 1
     \<and> modelCallsForPlanning (metrics_of r') = modelCallsForPlanning (metrics_of r)
     \<and> modelCallsForResponse (metrics_of r') = modelCallsForResponse (metrics_of r)
          + (case model env of
               None \<Rightarrow> 0
             | Some md \<Rightarrow> (case snd (processAgentLoop md (world_of r) input) of Inl e \<Rightarrow> 0 | Inr v \<Rightarrow> 1))
     \<and> (\<forall>x. res = Inr x \<longrightarrow> \<not> deterministic x \<and> r_error x = None)
     \<and> (\<forall>e. res = Inl e \<and> nullish e \<longrightarrow>
           (\<exists>md. model env = Some md \<and> snd (processAgentLoop md (world_of r) input) = Inl e))
     \<and> (model env = None \<longrightarrow> (\<exists>x. res = Inr x) \<and> world_of r' = world_of r)"
  by (auto simp: modelFallback_def run_simps split: prod.splits sum.splits option.splits
      dest!: get_prop_throw)


lemma plan_and_run_props:
  assumes "plan_and_run env r input c p = (r', res)"
  shows "totalTasks (metrics_of r') = totalTasks (metrics_of r)
     \<and> errors (metrics_of r') = errors (metrics_of r)
     \<and> modelFallbacks (metrics_of r') = modelFallbacks (metrics_of r)
     \<and> modelCallsForResponse (metrics_of r') = modelCallsForResponse (metrics_of r)
     \<and> modelCallsForPlanning (metrics_of r') = modelCallsForPlanning (metrics_of r)
          + (if requiresModelForPlanning p \<and> model env \<noteq> None then 1 else 0)
     \<and> byIntent (metrics_of r') = byIntent (metrics_of r)
     \<and> state_of r' \<in> {''planning'', ''executing'', ''validating'', ''responding''}
     \<and> (case res of
           Inr x \<Rightarrow> r_error x = None \<and> deterministic x = (\<not> requiresModelForPlanning p)
                    \<and> deterministicTasks (metrics_of r')
                        = deterministicTasks (metrics_of r) + (if deterministic x then 1 else 0)
         | Inl e \<Rightarrow> deterministicTasks (metrics_of r') = deterministicTasks (metrics_of r)
                    \<and> (nullish e \<longrightarrow>
                          (\<exists>v s. snd (logger_warn env v s) = Inl e)
                          \<or> (\<exists>v. validator_for env (intent c) v = Inl e)
                          \<or> (\<exists>v q. t_success (templates_for env (intent c)) v q = Inl e
                                  \<or> t_error (templates_for env (intent c)) v q = Inl e)))
     \<and> (requiresModelForPlanning p \<and> model env = None \<longrightarrow>
           res = Inr (make_result env (push_trace (planning_entry p) (set_state ''planning'' r))
                        (JStr (needs_planning_message c)) False)
           \<and> calls_of r' = calls_of r \<and> world_of r' = world_of r)
     \<and> (\<not> requiresModelForPlanning p \<longrightarrow>
           (case aborting_step env (world_of r) (steps p) of
              None \<Rightarrow>
                calls_of r' = calls_of r @ map call_of (steps p)
                \<and> world_of r' = world_after_steps env (world_of r) (steps p)
                \<and> (\<forall>x. res = Inr x \<longrightarrow>
                      r_results x = Some (map (expected_result env (world_of r) (steps p))
                                            [0..<length (steps p)]))
            | Some k \<Rightarrow>
                k < length (steps p)
                \<and> calls_of r' = calls_of r @ map call_of (take (Suc k) (steps p))
                \<and> world_of r' = world_after_steps env (world_of r) (take (Suc k) (steps p))
                \<and> state_of r' = ''executing''
                \<and> (\<exists>e. outcome_of_step env (world_of r) (steps p) k = Inl e \<and> nullish e
                        \<and> res = Inl (type_error e ''message''))))"
proof (cases "requiresModelForPlanning p")
  case True
  show ?thesis
  proof (cases "model env")
    case None
    then show ?thesis using assms True by (auto simp: plan_and_run_def run_simps)
  next
    case (Some md)
    obtain r2 mp where a: "modelAssistPlan env md
        (update_metrics (\<lambda>m. m\<lparr> modelCallsForPlanning := modelCallsForPlanning m + 1 \<rparr>)
           (push_trace (planning_entry p) (set_state ''planning'' r))) input c p = (r2, mp)"
      by (cases "modelAssistPlan env md
        (update_metrics (\<lambda>m. m\<lparr> modelCallsForPlanning := modelCallsForPlanning m + 1 \<rparr>)
           (push_trace (planning_entry p) (set_state ''planning'' r))) input c p")
    note ap = modelAssistPlan_props[OF a]
    show ?thesis
    proof (cases mp)
      case (Inl e)
      then show ?thesis using assms True Some a ap by (auto simp: plan_and_run_def run_simps)
    next
      case mpv: (Inr planv)
      show ?thesis
      proof (cases "get_prop planv ''steps''")
        case (Inl e)
        then show ?thesis using assms True Some a ap mpv get_prop_throw[OF Inl]
          by (auto simp: plan_and_run_def run_simps)
      next
        case (Inr sv)
        then have "executeModelPlan env
                       (push_trace [(''state'', JStr ''model_plan_assist''),
                                    (''modelSteps'', or_js (opt_prop sv ''length'') (JNum 0))] r2)
                       input planv c = (r', res)"
          using assms True Some a mpv by (simp add: plan_and_run_def)
        from executeModelPlan_props[OF this] show ?thesis using True Some ap
          by (cases res) (auto simp: run_simps)
      qed
    qed
  qed
next
  case False
  obtain r2 out where e: "execute_steps env (set_state ''executing'' (push_trace (planning_entry p) (set_state ''planning'' r))) (steps p) = (r2, out)"
    by (cases "execute_steps env (set_state ''executing'' (push_trace (planning_entry p) (set_state ''planning'' r))) (steps p)")
  note ef = execute_steps_frame[OF e]
  note es = execute_steps_spec[OF e]
  show ?thesis
  proof (cases out)
    case (Inl x)
    then have eq: "r' = r2" "res = Inl x"
      using assms False e by (simp_all add: plan_and_run_def)
    from Inl es obtain k where k: "aborting_step env (world_of r) (steps p) = Some k"
      by (cases "aborting_step env (world_of r) (steps p)") (auto simp: run_simps)
    show ?thesis using False eq Inl es ef k execute_steps_throw[OF e[unfolded Inl]]
      by (auto simp: run_simps)
  next
    case (Inr rs)
    then have v: "validate_respond env
               (push_trace [(''state'', JStr ''executing''), (''stepsExecuted'', JNum (of_nat (length rs))),
                            (''successes'', JNum (of_nat (count_successes rs)))] r2)
               c p rs = (r', res)"
      using assms False e by (simp add: plan_and_run_def)
    from Inr es have n: "aborting_step env (world_of r) (steps p) = None"
      by (cases "aborting_step env (world_of r) (steps p)") (auto simp: run_simps)
    from validate_respond_props[OF v] show ?thesis using False Inr es ef n
      by (cases res) (auto simp: run_simps)
  qed
qed

lemma process_try_props:
  assumes "process_try env cfg r input = (r', res)"
  shows "totalTasks (metrics_of r') = totalTasks (metrics_of r)
     \<and> errors (metrics_of r') = errors (metrics_of r)
     \<and> byIntent (metrics_of r') = byIntent (trackIntent (metrics_of r) (intent (classify input (confidenceThreshold cfg))))
     \<and> modelFallbacks (metrics_of r') = modelFallbacks (metrics_of r)
          + (if needsModel (classify input (confidenceThreshold cfg))
                \<and> reason (classify input (confidenceThreshold cfg)) = ''no_pattern_match'' then 1 else 0)
     \<and> modelCallsForPlanning (metrics_of r') = modelCallsForPlanning (metrics_of r)
          + (if \<not> (needsModel (classify input (confidenceThreshold cfg))
                    \<and> reason (classify input (confidenceThreshold cfg)) = ''no_pattern_match'')
                \<and> requiresModelForPlanning (planFromIntent (classify input (confidenceThreshold cfg)) input)
                \<and> model env \<noteq> None then 1 else 0)
     \<and> modelCallsForResponse (metrics_of r') = modelCallsForResponse (metrics_of r)
          + (if needsModel (classify input (confidenceThreshold cfg))
                \<and> reason (classify input (confidenceThreshold cfg)) = ''no_pattern_match''
             then (case model env of
                     None \<Rightarrow> 0
                   | Some md \<Rightarrow> (case snd (processAgentLoop md (world_of r) input) of Inl e \<Rightarrow> 0 | Inr v \<Rightarrow> 1))
             else 0)
     \<and> state_of r' \<in> {''classifying'', ''planning'', ''executing'', ''validating'', ''responding''}
     \<and> (case res of
           Inr x \<Rightarrow> r_error x = None
                    \<and> deterministic x
                       = (\<not> (needsModel (classify input (confidenceThreshold cfg))
                              \<and> reason (classify input (confidenceThreshold cfg)) = ''no_pattern_match'')
                          \<and> \<not> requiresModelForPlanning
                                (planFromIntent (classify input (confidenceThreshold cfg)) input))
                    \<and> deterministicTasks (metrics_of r')
                        = deterministicTasks (metrics_of r) + (if deterministic x then 1 else 0)
         | Inl e \<Rightarrow> deterministicTasks (metrics_of r') = deterministicTasks (metrics_of r)
                    \<and> (nullish e \<longrightarrow>
                          (\<exists>md. model env = Some md \<and> snd (processAgentLoop md (world_of r) input) = Inl e)
                          \<or> (\<exists>v s. snd (logger_warn env v s) = Inl e)
                          \<or> (\<exists>i v. validator_for env i v = Inl e)
                          \<or> (\<exists>i v q. t_success (templates_for env i) v q = Inl e
                                    \<or> t_error (templates_for env i) v q = Inl e)))
     \<and> (model env = None
          \<and> ((needsModel (classify input (confidenceThreshold cfg))
                \<and> reason (classify input (confidenceThreshold cfg)) = ''no_pattern_match'')
              \<or> requiresModelForPlanning (planFromIntent (classify input (confidenceThreshold cfg)) input))
          \<longrightarrow> (\<exists>x. res = Inr x) \<and> calls_of r' = calls_of r \<and> world_of r' = world_of r)
     \<and> (\<not> (needsModel (classify input (confidenceThreshold cfg))
              \<and> reason (classify input (confidenceThreshold cfg)) = ''no_pattern_match'')
          \<and> \<not> requiresModelForPlanning (planFromIntent (classify input (confidenceThreshold cfg)) input)
          \<longrightarrow> (case aborting_step env (world_of r)
                        (steps (planFromIntent (classify input (confidenceThreshold cfg)) input)) of
                 None \<Rightarrow>
                   calls_of r' = calls_of r
                      @ map call_of (steps (planFromIntent (classify input (confidenceThreshold cfg)) input))
                   \<and> world_of r' = world_after_steps env (world_of r)
                        (steps (planFromIntent (classify input (confidenceThreshold cfg)) input))
                   \<and> (\<forall>x. res = Inr x \<longrightarrow>
                        r_results x = Some (map (expected_result env (world_of r)
                           (steps (planFromIntent (classify input (confidenceThreshold cfg)) input)))
                           [0..<length (steps (planFromIntent (classify input (confidenceThreshold cfg)) input))]))
               | Some k \<Rightarrow>
                   k < length (steps (planFromIntent (classify input (confidenceThreshold cfg)) input))
                   \<and> calls_of r' = calls_of r
                      @ map call_of (take (Suc k) (steps (planFromIntent (classify input (confidenceThreshold cfg)) input)))
                   \<and> world_of r' = world_after_steps env (world_of r)
                        (take (Suc k) (steps (planFromIntent (classify input (confidenceThreshold cfg)) input)))
                   \<and> state_of r' = ''executing''
                   \<and> (\<exists>e. outcome_of_step env (world_of r)
                             (steps (planFromIntent (classify input (confidenceThreshold cfg)) input)) k = Inl e
                        \<and> nullish e \<and> res = Inl (type_error e ''message''))))"
proof (cases "needsModel (classify input (confidenceThreshold cfg))
                \<and> reason (classify input (confidenceThreshold cfg)) = ''no_pattern_match''")
  case True
  then have "modelFallback env (update_metrics (\<lambda>m. trackIntent m (intent (classify input (confidenceThreshold cfg))))
             (push_trace (classifying_entry (classify input (confidenceThreshold cfg))) (set_state ''classifying'' r)))
            input (classify input (confidenceThreshold cfg)) = (r', res)"
    using assms by (simp add: process_try_def)
  from modelFallback_props[OF this] show ?thesis using True
    by (cases res) (auto simp: run_simps trackIntent_fields split: option.splits)
next
  case False
  then have "plan_and_run env (update_metrics (\<lambda>m. trackIntent m (intent (classify input (confidenceThreshold cfg))))
             (push_trace (classifying_entry (classify input (confidenceThreshold cfg))) (set_state ''classifying'' r)))
            input (classify input (confidenceThreshold cfg))
            (planFromIntent (classify input (confidenceThreshold cfg)) input) = (r', res)"
    using assms by (auto simp: process_try_def split: if_splits)
  from plan_and_run_props[OF this] show ?thesis using False
    by (cases res) (auto simp: run_simps trackIntent_fields split: option.splits)
qed

section \<open>The orchestrator: claims\<close>

lemma process_cases:
  assumes "process_try env cfg (initial_run m w) input = (r, res)"
  shows "process env cfg m w input =
     (case res of
        Inr x \<Rightarrow> finish r (Inr x)
      | Inl e \<Rightarrow> finish (fst (catch_all env r e)) (snd (catch_all env r e)))"
  using assms by (simp add: process_def split: sum.splits prod.splits)

lemma catch_all_cases:
  "catch_all env r e =
     (r\<lparr> metrics_of := (metrics_of r)\<lparr> errors := errors (metrics_of r) + 1 \<rparr> \<rparr>,
      if nullish e then Inl (type_error e ''message'')
      else Inr ((make_result env (r\<lparr> metrics_of := (metrics_of r)\<lparr> errors := errors (metrics_of r) + 1 \<rparr> \<rparr>)
                   (JStr (''Error in '' @ state_of r @ '': ''
                          @ to_string (num_to_string env) (get_field e ''message''))) False)
                \<lparr> r_error := Some (get_field e ''message'') \<rparr>))"
  by (simp add: catch_all_def get_prop_def run_simps)





lemma process_npm:
  "process (env\<lparr> model := None \<rparr>) cfg m w ''npm test'' =
     finish (push_trace (planning_entry (planFromIntent (classify ''npm test'' (confidenceThreshold cfg)) ''npm test''))
              (set_state ''planning''
                (update_metrics (\<lambda>m. trackIntent m ''shell_command'')
                  (push_trace (classifying_entry (classify ''npm test'' (confidenceThreshold cfg)))
                    (set_state ''classifying'' (initial_run m w))))))
       (Inr (make_result (env\<lparr> model := None \<rparr>)
               (push_trace (planning_entry (planFromIntent (classify ''npm test'' (confidenceThreshold cfg)) ''npm test''))
                 (set_state ''planning''
                   (update_metrics (\<lambda>m. trackIntent m ''shell_command'')
                     (push_trace (classifying_entry (classify ''npm test'' (confidenceThreshold cfg)))
                       (set_state ''classifying'' (initial_run m w))))))
               (JStr (needs_planning_message (classify ''npm test'' (confidenceThreshold cfg)))) False))"
  by (simp add: process_def process_try_def plan_and_run_def classify_npm plan_npm)

text \<open>
  Claim C9. For the input \<^verbatim>\<open>npm test\<close> and the default threshold, \<^verbatim>\<open>classify\<close> returns the intent
  \<^verbatim>\<open>shell_command\<close> and extracts no git operation and no package name; the planner returns a
  plan without steps and with \<^verbatim>\<open>requiresModelForPlanning = true\<close>. On an orchestrator without a
  model adapter, whatever its other collaborators, its threshold, its metrics and the world are,
  \<^verbatim>\<open>process\<close> returns a result with \<^verbatim>\<open>deterministic = false\<close> whose response is the message that
  a model is needed for the planning; the executor is never called and the world is unchanged.
\<close>

theorem npm_test_example:
  "intent (classify ''npm test'' default_threshold) = ''shell_command''
   \<and> gitOps (entities (classify ''npm test'' default_threshold)) = []
   \<and> packages (entities (classify ''npm test'' default_threshold)) = []
   \<and> steps (planFromIntent (classify ''npm test'' default_threshold) ''npm test'') = []
   \<and> requiresModelForPlanning (planFromIntent (classify ''npm test'' default_threshold) ''npm test'')
   \<and> (\<exists>res. returned (process (env\<lparr> model := None \<rparr>) cfg m w ''npm test'') = Inr res
         \<and> deterministic res = False
         \<and> response res = JStr (''I identified this as a '' @ [CHR 0x22] @ ''shell_command'' @ [CHR 0x22]
              @ '' task, but I need a model to complete the planning. ''
              @ ''Run with --provider ollama or --provider claude to enable model-assisted planning.''))
   \<and> tool_calls (process (env\<lparr> model := None \<rparr>) cfg m w ''npm test'') = []
   \<and> world_after (process (env\<lparr> model := None \<rparr>) cfg m w ''npm test'') = w"
  by (simp add: process_npm classify_npm plan_npm finish_def run_simps initial_run_def
      needs_planning_message_def)

text \<open>
  The same call with the sample collaborators and the default configuration.
\<close>

theorem npm_test_example_witness:
  "\<exists>res. returned (process (sample_env [] None) (new_config None None) initial_metrics 0 ''npm test'') = Inr res
     \<and> deterministic res = False"
  using npm_test_example[of "sample_env [] None" "new_config None None" initial_metrics 0]
  by (auto simp: sample_env_def)





text \<open>
  Claim C1, as the code has it. Every call of \<^verbatim>\<open>process\<close> adds one to \<^verbatim>\<open>totalTasks\<close> and one to
  \<^verbatim>\<open>byIntent\<close> at the intent of the classification, and leaves the other entries of
  \<^verbatim>\<open>byIntent\<close> alone. \<^verbatim>\<open>modelFallbacks\<close> grows by one exactly when the classifier found no pattern
  match; \<^verbatim>\<open>modelCallsForPlanning\<close> grows by one exactly when the classifier found a match, the
  plan requires a model and there is a model adapter; \<^verbatim>\<open>modelCallsForResponse\<close> grows by one
  exactly when the classifier found no match and \<^verbatim>\<open>processAgentLoop\<close> of the adapter returned;
  \<^verbatim>\<open>deterministicTasks\<close> grows by one exactly when a deterministic result is returned; and
  \<^verbatim>\<open>errors\<close> grows by one exactly when the \<^verbatim>\<open>catch\<close> block of \<^verbatim>\<open>process\<close> ran, that is when the
  result carries an error or the call throws. No counter changes otherwise. A result is
  deterministic exactly when the classifier found a match, the plan does not require a model
  and no exception was caught. Without a model adapter, the calls that found no match or whose
  plan requires a model return a result without error; so a call whose plan requires a model,
  on an orchestrator without an adapter, increments none of \<^verbatim>\<open>deterministicTasks\<close>,
  \<^verbatim>\<open>modelFallbacks\<close> and \<^verbatim>\<open>errors\<close>.
\<close>

theorem metrics_per_call:
  "totalTasks (metrics_after (process env cfg m w input)) = totalTasks m + 1
   \<and> byIntent (metrics_after (process env cfg m w input))
       = (byIntent m)(intent (classify input (confidenceThreshold cfg)) \<mapsto>
           (case byIntent m (intent (classify input (confidenceThreshold cfg))) of None \<Rightarrow> 0 | Some n \<Rightarrow> n) + 1)
   \<and> modelFallbacks (metrics_after (process env cfg m w input))
       = modelFallbacks m
         + (if needsModel (classify input (confidenceThreshold cfg))
               \<and> reason (classify input (confidenceThreshold cfg)) = ''no_pattern_match'' then 1 else 0)
   \<and> modelCallsForPlanning (metrics_after (process env cfg m w input))
       = modelCallsForPlanning m
         + (if \<not> (needsModel (classify input (confidenceThreshold cfg))
                   \<and> reason (classify input (confidenceThreshold cfg)) = ''no_pattern_match'')
               \<and> requiresModelForPlanning (planFromIntent (classify input (confidenceThreshold cfg)) input)
               \<and> model env \<noteq> None then 1 else 0)
   \<and> modelCallsForResponse (metrics_after (process env cfg m w input))
       = modelCallsForResponse m
         + (if needsModel (classify input (confidenceThreshold cfg))
               \<and> reason (classify input (confidenceThreshold cfg)) = ''no_pattern_match''
            then (case model env of
                    None \<Rightarrow> 0
                  | Some md \<Rightarrow> (case snd (processAgentLoop md w input) of Inl e \<Rightarrow> 0 | Inr v \<Rightarrow> 1))
            else 0)
   \<and> deterministicTasks (metrics_after (process env cfg m w input))
       = deterministicTasks m
         + (case returned (process env cfg m w input) of
              Inr res \<Rightarrow> if deterministic res then 1 else 0
            | Inl e \<Rightarrow> 0)
   \<and> errors (metrics_after (process env cfg m w input))
       = errors m
         + (case returned (process env cfg m w input) of
              Inr res \<Rightarrow> if r_error res = None then 0 else 1
            | Inl e \<Rightarrow> 1)
   \<and> (\<forall>res. returned (process env cfg m w input) = Inr res \<longrightarrow>
         deterministic res
           = (\<not> (needsModel (classify input (confidenceThreshold cfg))
                  \<and> reason (classify input (confidenceThreshold cfg)) = ''no_pattern_match'')
              \<and> \<not> requiresModelForPlanning (planFromIntent (classify input (confidenceThreshold cfg)) input)
              \<and> r_error res = None))
   \<and> (model env = None
        \<and> ((needsModel (classify input (confidenceThreshold cfg))
              \<and> reason (classify input (confidenceThreshold cfg)) = ''no_pattern_match'')
            \<or> requiresModelForPlanning (planFromIntent (classify input (confidenceThreshold cfg)) input))
        \<longrightarrow> (\<exists>res. returned (process env cfg m w input) = Inr res \<and> r_error res = None))"
proof -
  obtain r res where pt: "process_try env cfg (initial_run m w) input = (r, res)"
    by (cases "process_try env cfg (initial_run m w) input")
  have w0: "world_of (initial_run m w) = w"
    by (simp add: initial_run_def)
  note pp = process_try_props[OF pt, unfolded w0]
  have counters:
    "totalTasks (metrics_of r) = totalTasks m + 1"
    "errors (metrics_of r) = errors m"
    "byIntent (metrics_of r)
       = (byIntent m)(intent (classify input (confidenceThreshold cfg)) \<mapsto>
           (case byIntent m (intent (classify input (confidenceThreshold cfg))) of None \<Rightarrow> 0 | Some n \<Rightarrow> n) + 1)"
    "modelFallbacks (metrics_of r) = modelFallbacks m
         + (if needsModel (classify input (confidenceThreshold cfg))
               \<and> reason (classify input (confidenceThreshold cfg)) = ''no_pattern_match'' then 1 else 0)"
    "modelCallsForPlanning (metrics_of r) = modelCallsForPlanning m
         + (if \<not> (needsModel (classify input (confidenceThreshold cfg))
                   \<and> reason (classify input (confidenceThreshold cfg)) = ''no_pattern_match'')
               \<and> requiresModelForPlanning (planFromIntent (classify input (confidenceThreshold cfg)) input)
               \<and> model env \<noteq> None then 1 else 0)"
    "modelCallsForResponse (metrics_of r) = modelCallsForResponse m
         + (if needsModel (classify input (confidenceThreshold cfg))
               \<and> reason (classify input (confidenceThreshold cfg)) = ''no_pattern_match''
            then (case model env of
                    None \<Rightarrow> 0
                  | Some md \<Rightarrow> (case snd (processAgentLoop md w input) of Inl e \<Rightarrow> 0 | Inr v \<Rightarrow> 1))
            else 0)"
    using pp[THEN conjunct1] pp[THEN conjunct2, THEN conjunct1]
      pp[THEN conjunct2, THEN conjunct2, THEN conjunct1]
      pp[THEN conjunct2, THEN conjunct2, THEN conjunct2, THEN conjunct1]
      pp[THEN conjunct2, THEN conjunct2, THEN conjunct2, THEN conjunct2, THEN conjunct1]
      pp[THEN conjunct2, THEN conjunct2, THEN conjunct2, THEN conjunct2, THEN conjunct2, THEN conjunct1]
    by (simp_all add: initial_run_def trackIntent_def)
  note shape = pp[THEN conjunct2, THEN conjunct2, THEN conjunct2, THEN conjunct2, THEN conjunct2,
      THEN conjunct2, THEN conjunct2, THEN conjunct1]
  note nomodel = pp[THEN conjunct2, THEN conjunct2, THEN conjunct2, THEN conjunct2, THEN conjunct2,
      THEN conjunct2, THEN conjunct2, THEN conjunct2, THEN conjunct1]
  show ?thesis
  proof (cases res)
    case (Inl e)
    have p: "process env cfg m w input = finish (fst (catch_all env r e)) (snd (catch_all env r e))"
      using process_cases[OF pt] Inl by simp
    have d: "deterministicTasks (metrics_of r) = deterministicTasks m"
      using shape Inl by (simp add: initial_run_def)
    have nm: "\<not> (model env = None
        \<and> ((needsModel (classify input (confidenceThreshold cfg))
              \<and> reason (classify input (confidenceThreshold cfg)) = ''no_pattern_match'')
            \<or> requiresModelForPlanning (planFromIntent (classify input (confidenceThreshold cfg)) input)))"
      using nomodel Inl by auto
    show ?thesis using counters d nm
      by (cases "nullish e") (simp_all add: p catch_all_cases finish_def run_simps)
  next
    case (Inr x)
    have p: "process env cfg m w input = finish r (Inr x)"
      using process_cases[OF pt] Inr by simp
    have d: "r_error x = None"
      "deterministic x
           = (\<not> (needsModel (classify input (confidenceThreshold cfg))
                  \<and> reason (classify input (confidenceThreshold cfg)) = ''no_pattern_match'')
              \<and> \<not> requiresModelForPlanning (planFromIntent (classify input (confidenceThreshold cfg)) input))"
      "deterministicTasks (metrics_of r) = deterministicTasks m + (if deterministic x then 1 else 0)"
      using shape Inr by (simp_all add: initial_run_def)
    show ?thesis using counters d
      by (simp add: p finish_def)
  qed
qed

text \<open>
  The call on \<^verbatim>\<open>npm test\<close> without a model adapter: the plan requires a model, the result is not
  deterministic and carries no error, and the call is counted in \<^verbatim>\<open>totalTasks\<close> and under the
  intent \<^verbatim>\<open>shell_command\<close>.
\<close>

theorem metrics_per_call_witness:
  "model (sample_env [] None) = None
   \<and> requiresModelForPlanning
        (planFromIntent (classify ''npm test'' (confidenceThreshold (new_config None None))) ''npm test'')
   \<and> (\<exists>res. returned (process (sample_env [] None) (new_config None None) initial_metrics 0 ''npm test'') = Inr res
         \<and> r_error res = None \<and> \<not> deterministic res)
   \<and> totalTasks (metrics_after (process (sample_env [] None) (new_config None None) initial_metrics 0 ''npm test'')) = 1
   \<and> byIntent (metrics_after (process (sample_env [] None) (new_config None None) initial_metrics 0 ''npm test''))
        ''shell_command'' = Some 1"
  using metrics_per_call[of "sample_env [] None" "new_config None None" initial_metrics 0 "''npm test''"]
  by (auto simp: sample_env_def plan_npm classify_npm initial_metrics_def)

text \<open>
  Claim C1 says that every call increments exactly one of \<^verbatim>\<open>deterministicTasks\<close>,
  \<^verbatim>\<open>modelFallbacks\<close> and \<^verbatim>\<open>errors\<close>. The call on \<^verbatim>\<open>npm test\<close> of a fresh orchestrator without a
  model adapter increments none of them.
\<close>

theorem one_of_three_counterexample:
  "deterministicTasks (metrics_after (process (sample_env [] None) (new_config None None) initial_metrics 0 ''npm test''))
     = deterministicTasks initial_metrics
   \<and> modelFallbacks (metrics_after (process (sample_env [] None) (new_config None None) initial_metrics 0 ''npm test''))
     = modelFallbacks initial_metrics
   \<and> errors (metrics_after (process (sample_env [] None) (new_config None None) initial_metrics 0 ''npm test''))
     = errors initial_metrics"
proof -
  have "sample_env [] None = (sample_env [] None)\<lparr> model := None \<rparr>"
    by (simp add: sample_env_def)
  then have "process (sample_env [] None) (new_config None None) initial_metrics 0 ''npm test''
      = process ((sample_env [] None)\<lparr> model := None \<rparr>) (new_config None None) initial_metrics 0 ''npm test''"
    by simp
  then show ?thesis
    by (simp add: process_npm finish_def run_simps initial_run_def trackIntent_def)
qed





end
